theory Spec2Isabelle
  imports Main
begin

section \<open>The ledger of rifa\_multivendedor.py\<close>

text \<open>
  The class \<open>RifaManager\<close> keeps two Google Sheets worksheets, \<open>ventas\<close> (confirmed
  sales) and \<open>reservas\<close> (temporary holds). Every method reads and writes them through
  gspread calls, each of which may raise; the methods catch those exceptions themselves.

  Instants (\<open>datetime\<close>) are integers counting the microseconds since
  \<open>datetime.min\<close> (0001-01-01 00:00:00), so that \<open>datetime.max\<close>
  (9999-12-31 23:59:59.999999) is \<open>datetime_max\<close>, \<open>timedelta(minutes=m)\<close> is
  \<open>m * 60000000\<close> and \<open>strftime("%Y-%m-%d %H:%M:%S")\<close> keeps the instant down to the
  second.
\<close>

type_synonym datetime = int

definition datetime_max :: datetime where
  "datetime_max = 315537897599999999"

text \<open>
  A cell of a sheet holds a text or a number. A number is kept as the text Python prints
  for it, which is all the class ever does with one: it compares cells with a \<open>str\<close>
  (never equal to a number) and formats them into a message.
\<close>

datatype celda = Texto string | Numero string

text \<open>A row of \<open>ventas\<close>: the columns \<open>numero, comprador, telefono, vendedor, fecha_venta,
  timestamp\<close>. The two columns that also exist in \<open>reservas\<close> carry the suffix \<open>_v\<close>.\<close>

record venta =
  numero_v :: int
  comprador :: celda
  telefono :: celda
  vendedor_v :: celda
  fecha_venta :: datetime
  timestamp :: datetime

text \<open>A row of \<open>reservas\<close>: the columns \<open>numero, vendedor, timestamp_reserva, expira_en\<close>.\<close>

record reserva =
  numero :: int
  vendedor :: celda
  timestamp_reserva :: datetime
  expira_en :: datetime

datatype excepcion = APIError | OverflowError

text \<open>The two \<open>st.warning\<close> messages of the class.\<close>

datatype aviso = Error_limpiando_reservas excepcion | Error_cancelando_reserva excepcion

text \<open>The writes gspread performs, in the order they reach the sheet.\<close>

datatype escritura =
    Append_ventas venta
  | Append_reservas reserva
  | Delete_reservas nat

text \<open>
  The state the methods act on: the data rows of both worksheets (the header row is
  row 1 of the sheet and is not part of the lists), the outcome of the gspread calls
  still to come (\<open>fallos\<close>: one entry per call, \<open>True\<close> when that call raises; calls
  beyond the list return normally), the warnings shown so far and the history of
  writes applied to the sheets, oldest first.

  \<open>lee_numero\<close> is how gspread's \<open>get_all_records\<close> reads a text cell back: it
  numericises every cell, so a text that \<open>int()\<close> or \<open>float()\<close> accepts comes back as that
  number. \<open>lee_numero s = Some n\<close> says the text \<open>s\<close> comes back as the number Python
  prints as \<open>n\<close>; \<open>None\<close> says it comes back as the same text. Which texts are numbers
  is left open: every property below holds whatever \<open>lee_numero\<close> is.
\<close>

record rifa_manager =
  ventas_worksheet :: "venta list"
  reservas_worksheet :: "reserva list"
  fallos :: "bool list"
  avisos :: "aviso list"
  bitacora :: "escritura list"
  lee_numero :: "string \<Rightarrow> string option"

subsection \<open>The gspread calls\<close>

definition falla :: "rifa_manager \<Rightarrow> bool" where
  "falla w = (case fallos w of [] \<Rightarrow> False | b # _ \<Rightarrow> b)"

definition avanza :: "rifa_manager \<Rightarrow> rifa_manager" where
  "avanza w = w\<lparr>fallos := tl (fallos w)\<rparr>"

fun numericise :: "(string \<Rightarrow> string option) \<Rightarrow> celda \<Rightarrow> celda" where
  "numericise p (Texto s) = (case p s of None \<Rightarrow> Texto s | Some n \<Rightarrow> Numero n)"
| "numericise p (Numero n) = Numero n"

definition leer_venta :: "(string \<Rightarrow> string option) \<Rightarrow> venta \<Rightarrow> venta" where
  "leer_venta p s =
     s\<lparr>comprador := numericise p (comprador s), telefono := numericise p (telefono s),
       vendedor_v := numericise p (vendedor_v s)\<rparr>"

definition leer_reserva :: "(string \<Rightarrow> string option) \<Rightarrow> reserva \<Rightarrow> reserva" where
  "leer_reserva p r = r\<lparr>vendedor := numericise p (vendedor r)\<rparr>"

definition get_all_records_ventas ::
  "rifa_manager \<Rightarrow> (excepcion + venta list) \<times> rifa_manager" where
  "get_all_records_ventas w =
     (if falla w then (Inl APIError, avanza w)
      else (Inr (map (leer_venta (lee_numero w)) (ventas_worksheet w)), avanza w))"

definition get_all_records_reservas ::
  "rifa_manager \<Rightarrow> (excepcion + reserva list) \<times> rifa_manager" where
  "get_all_records_reservas w =
     (if falla w then (Inl APIError, avanza w)
      else (Inr (map (leer_reserva (lee_numero w)) (reservas_worksheet w)), avanza w))"

definition append_row_ventas ::
  "venta \<Rightarrow> rifa_manager \<Rightarrow> (excepcion + unit) \<times> rifa_manager" where
  "append_row_ventas s w =
     (if falla w then (Inl APIError, avanza w)
      else (Inr (), (avanza w)\<lparr>ventas_worksheet := ventas_worksheet w @ [s],
                                 bitacora := bitacora w @ [Append_ventas s]\<rparr>))"

definition append_row_reservas ::
  "reserva \<Rightarrow> rifa_manager \<Rightarrow> (excepcion + unit) \<times> rifa_manager" where
  "append_row_reservas r w =
     (if falla w then (Inl APIError, avanza w)
      else (Inr (), (avanza w)\<lparr>reservas_worksheet := reservas_worksheet w @ [r],
                                 bitacora := bitacora w @ [Append_reservas r]\<rparr>))"

text \<open>
  \<open>delete_rows k\<close> removes sheet row \<open>k\<close>; the data row at list position \<open>i\<close> is sheet
  row \<open>i + 2\<close>. A row number that holds no data row (the header, or a row below the
  data) leaves the data rows as they are.
\<close>

definition quitar_fila :: "nat \<Rightarrow> 'a list \<Rightarrow> 'a list" where
  "quitar_fila k xs =
     (if 2 \<le> k \<and> k - 2 < length xs then take (k - 2) xs @ drop (k - 1) xs else xs)"

definition delete_rows_reservas ::
  "nat \<Rightarrow> rifa_manager \<Rightarrow> (excepcion + unit) \<times> rifa_manager" where
  "delete_rows_reservas k w =
     (if falla w then (Inl APIError, avanza w)
      else (Inr (), (avanza w)\<lparr>reservas_worksheet := quitar_fila k (reservas_worksheet w),
                                 bitacora := bitacora w @ [Delete_reservas k]\<rparr>))"

subsection \<open>limpiar\_reservas\_expiradas\<close>

text \<open>The test of the loop, \<open>now > expira\<close>.\<close>

definition expirada :: "datetime \<Rightarrow> reserva \<Rightarrow> bool" where
  "expirada now r = (now > expira_en r)"

text \<open>\<open>rows_to_delete\<close>: \<open>i + 2\<close> for every record at position \<open>i\<close> that has expired.\<close>

definition rows_to_delete :: "datetime \<Rightarrow> reserva list \<Rightarrow> nat list" where
  "rows_to_delete now records =
     map (\<lambda>(i, r). i + 2) (filter (\<lambda>(i, r). expirada now r) (enumerate 0 records))"

text \<open>The loop \<open>for row_num in ...: delete_rows(row_num)\<close>; the first call that raises
  ends it.\<close>

fun borrar_filas :: "nat list \<Rightarrow> rifa_manager \<Rightarrow> (excepcion + unit) \<times> rifa_manager" where
  "borrar_filas [] w = (Inr (), w)"
| "borrar_filas (k # ks) w =
     (case delete_rows_reservas k w of
        (Inl e, w') \<Rightarrow> (Inl e, w')
      | (Inr u, w') \<Rightarrow> borrar_filas ks w')"

definition warning :: "aviso \<Rightarrow> rifa_manager \<Rightarrow> rifa_manager" where
  "warning a w = w\<lparr>avisos := avisos w @ [a]\<rparr>"

definition limpiar_reservas_expiradas :: "datetime \<Rightarrow> rifa_manager \<Rightarrow> rifa_manager" where
  "limpiar_reservas_expiradas now w =
     (case get_all_records_reservas w of
        (Inl e, w1) \<Rightarrow> warning (Error_limpiando_reservas e) w1
      | (Inr records, w1) \<Rightarrow>
          (case borrar_filas (rev (rows_to_delete now records)) w1 of
             (Inl e, w2) \<Rightarrow> warning (Error_limpiando_reservas e) w2
           | (Inr u, w2) \<Rightarrow> w2))"

subsection \<open>obtener\_numeros\_vendidos, obtener\_numeros\_reservados\<close>

text \<open>
  The comprehension \<open>{int(record['numero']): record for record in records if
  record['numero']}\<close>: a row whose number is 0 is skipped, and a later row replaces an
  earlier one with the same number.
\<close>

definition dict_por_numero :: "('a \<Rightarrow> int) \<Rightarrow> 'a list \<Rightarrow> (int \<rightharpoonup> 'a)" where
  "dict_por_numero clave records =
     foldl (\<lambda>m r. m(clave r \<mapsto> r)) Map.empty (filter (\<lambda>r. clave r \<noteq> 0) records)"

definition obtener_numeros_vendidos ::
  "rifa_manager \<Rightarrow> (int \<rightharpoonup> venta) \<times> rifa_manager" where
  "obtener_numeros_vendidos w =
     (case get_all_records_ventas w of
        (Inl e, w1) \<Rightarrow> (Map.empty, w1)
      | (Inr records, w1) \<Rightarrow> (dict_por_numero numero_v records, w1))"

definition obtener_numeros_reservados ::
  "datetime \<Rightarrow> rifa_manager \<Rightarrow> (int \<rightharpoonup> reserva) \<times> rifa_manager" where
  "obtener_numeros_reservados now w =
     (case get_all_records_reservas (limpiar_reservas_expiradas now w) of
        (Inl e, w1) \<Rightarrow> (Map.empty, w1)
      | (Inr records, w1) \<Rightarrow> (dict_por_numero numero records, w1))"

subsection \<open>reservar\_numero, confirmar\_venta, cancelar\_reserva\<close>

text \<open>The messages the methods return, one constructor per string of the source; an
  f-string carries what it formats.\<close>

datatype mensaje =
    Numero_ya_vendido
  | Numero_reservado_por string
  | Numero_reservado_exitosamente
  | Error_reservando excepcion
  | Numero_no_esta_reservado
  | No_tienes_la_reserva_de_este_numero
  | Venta_confirmada_exitosamente
  | Error_confirmando_venta excepcion

text \<open>What an f-string prints for a cell.\<close>

fun str_celda :: "celda \<Rightarrow> string" where
  "str_celda (Texto s) = s"
| "str_celda (Numero n) = n"

text \<open>
  \<open>timedelta(minutes=m)\<close> raises \<open>OverflowError\<close> unless its whole days, \<open>m\<close> minutes
  rounded down, are at most 999999999 in magnitude; \<open>now + timedelta\<close> raises
  \<open>OverflowError\<close> unless the sum lies between \<open>datetime.min\<close> and \<open>datetime.max\<close>.
\<close>

definition timedelta_minutes :: "int \<Rightarrow> excepcion + int" where
  "timedelta_minutes m =
     (if - 999999999 \<le> m div 1440 \<and> m div 1440 \<le> 999999999 then Inr (m * 60000000)
      else Inl OverflowError)"

definition datetime_add :: "datetime \<Rightarrow> int \<Rightarrow> excepcion + datetime" where
  "datetime_add now d =
     (if 0 \<le> now + d \<and> now + d \<le> datetime_max then Inr (now + d) else Inl OverflowError)"

text \<open>The row \<open>reservar_numero\<close> appends to \<open>reservas\<close>, when its expiry can be computed.\<close>

definition nueva_reserva :: "int \<Rightarrow> string \<Rightarrow> int \<Rightarrow> datetime \<Rightarrow> excepcion + reserva" where
  "nueva_reserva num vend minutos now =
     (case timedelta_minutes minutos of
        Inl e \<Rightarrow> Inl e
      | Inr d \<Rightarrow>
          (case datetime_add now d of
             Inl e \<Rightarrow> Inl e
           | Inr expira \<Rightarrow>
               Inr \<lparr>numero = num, vendedor = Texto vend, timestamp_reserva = now,
                    expira_en = expira\<rparr>))"

text \<open>
  \<open>reservar_numero\<close> reads the clock twice: inside \<open>limpiar_reservas_expiradas\<close>
  (\<open>now_l\<close>) and when it creates the reservation (\<open>now\<close>). Every exception that reaches
  its \<open>except\<close> gives \<open>(False, "Error reservando: ...")\<close>.
\<close>

definition reservar_numero ::
  "int \<Rightarrow> string \<Rightarrow> int \<Rightarrow> datetime \<Rightarrow> datetime \<Rightarrow> rifa_manager
     \<Rightarrow> (bool \<times> mensaje) \<times> rifa_manager" where
  "reservar_numero num vend minutos now_l now w =
     (case obtener_numeros_vendidos w of (vendidos, w1) \<Rightarrow>
      case obtener_numeros_reservados now_l w1 of (reservados, w2) \<Rightarrow>
        if vendidos num \<noteq> None then ((False, Numero_ya_vendido), w2)
        else (case reservados num of
                Some r \<Rightarrow> ((False, Numero_reservado_por (str_celda (vendedor r))), w2)
              | None \<Rightarrow>
                  (case nueva_reserva num vend minutos now of
                     Inl e \<Rightarrow> ((False, Error_reservando e), w2)
                   | Inr fila \<Rightarrow>
                       (case append_row_reservas fila w2 of
                          (Inl e, w3) \<Rightarrow> ((False, Error_reservando e), w3)
                        | (Inr u, w3) \<Rightarrow> ((True, Numero_reservado_exitosamente), w3)))))"

text \<open>The loop of \<open>cancelar_reserva\<close>: the position of the first record, as read, of that
  number and seller.\<close>

fun buscar_reserva :: "int \<Rightarrow> string \<Rightarrow> nat \<Rightarrow> reserva list \<Rightarrow> nat option" where
  "buscar_reserva num vend i [] = None"
| "buscar_reserva num vend i (r # rs) =
     (if numero r = num \<and> vendedor r = Texto vend then Some i
      else buscar_reserva num vend (Suc i) rs)"

definition cancelar_reserva :: "int \<Rightarrow> string \<Rightarrow> rifa_manager \<Rightarrow> rifa_manager" where
  "cancelar_reserva num vend w =
     (case get_all_records_reservas w of
        (Inl e, w1) \<Rightarrow> warning (Error_cancelando_reserva e) w1
      | (Inr records, w1) \<Rightarrow>
          (case buscar_reserva num vend 0 records of
             None \<Rightarrow> w1
           | Some i \<Rightarrow>
               (case delete_rows_reservas (i + 2) w1 of
                  (Inl e, w2) \<Rightarrow> warning (Error_cancelando_reserva e) w2
                | (Inr u, w2) \<Rightarrow> w2)))"

text \<open>The row \<open>confirmar_venta\<close> appends to \<open>ventas\<close>.\<close>

definition fila_venta :: "int \<Rightarrow> string \<Rightarrow> string \<Rightarrow> string \<Rightarrow> datetime \<Rightarrow> venta" where
  "fila_venta num compr tel vend now =
     \<lparr>numero_v = num, comprador = Texto compr, telefono = Texto tel, vendedor_v = Texto vend,
      fecha_venta = now - now mod 1000000, timestamp = now\<rparr>"

definition confirmar_venta ::
  "int \<Rightarrow> string \<Rightarrow> string \<Rightarrow> string \<Rightarrow> datetime \<Rightarrow> datetime \<Rightarrow> rifa_manager
     \<Rightarrow> (bool \<times> mensaje) \<times> rifa_manager" where
  "confirmar_venta num compr tel vend now_l now w =
     (case obtener_numeros_reservados now_l w of (reservados, w1) \<Rightarrow>
        (case reservados num of
           None \<Rightarrow> ((False, Numero_no_esta_reservado), w1)
         | Some r \<Rightarrow>
             if vendedor r \<noteq> Texto vend
             then ((False, No_tienes_la_reserva_de_este_numero), w1)
             else (case append_row_ventas (fila_venta num compr tel vend now) w1 of
                     (Inl e, w2) \<Rightarrow> ((False, Error_confirmando_venta e), w2)
                   | (Inr u, w2) \<Rightarrow>
                       ((True, Venta_confirmada_exitosamente),
                        cancelar_reserva num vend w2))))"

subsection \<open>The page: the current data and the grid\<close>

text \<open>
  The page reads \<open>numeros_vendidos = rifa_manager.obtener_numeros_vendidos()\<close> and then
  \<open>numeros_reservados = rifa_manager.obtener_numeros_reservados()\<close>;
  \<open>mostrar_grilla_numeros\<close> paints each number red when it is in \<open>numeros_vendidos\<close>,
  else yellow when it is in \<open>numeros_reservados\<close>, else green.
\<close>

datatype estado = Vendido venta | Reservado reserva | Disponible

definition estado_numero :: "(int \<rightharpoonup> venta) \<Rightarrow> (int \<rightharpoonup> reserva) \<Rightarrow> int \<Rightarrow> estado" where
  "estado_numero numeros_vendidos numeros_reservados n =
     (case numeros_vendidos n of
        Some info \<Rightarrow> Vendido info
      | None \<Rightarrow>
          (case numeros_reservados n of
             Some info \<Rightarrow> Reservado info
           | None \<Rightarrow> Disponible))"

definition mostrar_grilla_numeros :: "datetime \<Rightarrow> rifa_manager \<Rightarrow> (int \<Rightarrow> estado) \<times> rifa_manager" where
  "mostrar_grilla_numeros now w =
     (case obtener_numeros_vendidos w of (numeros_vendidos, w1) \<Rightarrow>
      case obtener_numeros_reservados now w1 of (numeros_reservados, w2) \<Rightarrow>
        (estado_numero numeros_vendidos numeros_reservados, w2))"

subsection \<open>Calling the methods\<close>

text \<open>What a call returns to its caller: the pair \<open>(bool, str)\<close> of \<open>reservar_numero\<close> and
  \<open>confirmar_venta\<close>, or \<open>None\<close> from the two methods that have no \<open>return\<close>.\<close>

datatype retorno = Tupla bool mensaje | Ninguno

datatype llamada =
    Reservar int string int datetime datetime
  | Confirmar int string string string datetime datetime
  | Cancelar int string
  | Limpiar datetime

fun ejecutar :: "llamada \<Rightarrow> rifa_manager \<Rightarrow> retorno \<times> rifa_manager" where
  "ejecutar (Reservar num vend minutos now_l now) w =
     (case reservar_numero num vend minutos now_l now w of
        ((ok, m), w') \<Rightarrow> (Tupla ok m, w'))"
| "ejecutar (Confirmar num compr tel vend now_l now) w =
     (case confirmar_venta num compr tel vend now_l now w of
        ((ok, m), w') \<Rightarrow> (Tupla ok m, w'))"
| "ejecutar (Cancelar num vend) w = (Ninguno, cancelar_reserva num vend w)"
| "ejecutar (Limpiar now) w = (Ninguno, limpiar_reservas_expiradas now w)"

fun ejecutar_todas :: "llamada list \<Rightarrow> rifa_manager \<Rightarrow> rifa_manager" where
  "ejecutar_todas [] w = w"
| "ejecutar_todas (c # cs) w = ejecutar_todas cs (snd (ejecutar c w))"

subsection \<open>Writing down a concrete ledger\<close>

text \<open>
  The concrete ledgers below read a text of decimal digits back as the number \<open>int()\<close>
  makes of it (\<open>'007'\<close> as \<open>7\<close>, \<open>'555'\<close> as \<open>555\<close>) and every other text as itself; the only
  texts they hold are of these two kinds.
\<close>

definition numero_py :: "string \<Rightarrow> string option" where
  "numero_py s =
     (if s \<noteq> [] \<and> list_all (\<lambda>c. c \<in> set ''0123456789'') s
      then Some (case dropWhile (\<lambda>c. c = CHR ''0'') s of [] \<Rightarrow> ''0'' | c # cs \<Rightarrow> c # cs)
      else None)"

abbreviation res :: "int \<Rightarrow> string \<Rightarrow> datetime \<Rightarrow> datetime \<Rightarrow> reserva" where
  "res n v t e \<equiv> \<lparr>numero = n, vendedor = Texto v, timestamp_reserva = t, expira_en = e\<rparr>"

abbreviation ven :: "int \<Rightarrow> celda \<Rightarrow> celda \<Rightarrow> celda \<Rightarrow> datetime \<Rightarrow> datetime \<Rightarrow> venta" where
  "ven n c t v f ts \<equiv>
     \<lparr>numero_v = n, comprador = c, telefono = t, vendedor_v = v, fecha_venta = f,
      timestamp = ts\<rparr>"

abbreviation hojas_con ::
  "venta list \<Rightarrow> reserva list \<Rightarrow> bool list \<Rightarrow> aviso list \<Rightarrow> escritura list \<Rightarrow> rifa_manager" where
  "hojas_con vs rs fs av es \<equiv>
     \<lparr>ventas_worksheet = vs, reservas_worksheet = rs, fallos = fs, avisos = av, bitacora = es,
      lee_numero = numero_py\<rparr>"

abbreviation hojas :: "venta list \<Rightarrow> reserva list \<Rightarrow> bool list \<Rightarrow> rifa_manager" where
  "hojas vs rs fs \<equiv> hojas_con vs rs fs [] []"

section \<open>Properties of the calls\<close>

subsection \<open>Reading rows back\<close>

lemma numericise_Texto:
  "numericise p c = Texto s \<longleftrightarrow> c = Texto s \<and> p s = None"
  by (cases c) (auto split: option.splits)

lemma leer_reserva_campos:
  "numero (leer_reserva p r) = numero r"
  "expira_en (leer_reserva p r) = expira_en r"
  "timestamp_reserva (leer_reserva p r) = timestamp_reserva r"
  "vendedor (leer_reserva p r) = numericise p (vendedor r)"
  "expirada now (leer_reserva p r) = expirada now r"
  by (simp_all add: leer_reserva_def expirada_def)

lemma leer_reserva_Texto:
  "vendedor (leer_reserva p r) = Texto s \<longleftrightarrow> vendedor r = Texto s \<and> p s = None"
  by (simp add: leer_reserva_campos numericise_Texto)

lemma leer_reserva_igual:
  "vendedor (leer_reserva p r) = Texto s \<Longrightarrow> leer_reserva p r = r"
  using numericise_Texto [of p "vendedor r" s] by (auto simp: leer_reserva_def)

lemma leer_venta_numero: "numero_v (leer_venta p s) = numero_v s"
  by (simp add: leer_venta_def)

lemma avanza_sin_fallos: "fallos w = [] \<Longrightarrow> avanza w = w"
  by (simp add: avanza_def)

lemma falla_sin_fallos: "fallos w = [] \<Longrightarrow> \<not> falla w"
  by (simp add: falla_def)

subsection \<open>The dict comprehension\<close>

lemma dict_por_numero_snoc:
  "dict_por_numero clave (xs @ [x]) =
     (if clave x \<noteq> 0 then (dict_por_numero clave xs)(clave x \<mapsto> x)
      else dict_por_numero clave xs)"
  by (simp add: dict_por_numero_def)

lemma dict_por_numero_None:
  "dict_por_numero clave xs n = None \<longleftrightarrow> n = 0 \<or> n \<notin> clave ` set xs"
  by (induction xs rule: rev_induct) (auto simp: dict_por_numero_snoc, simp add: dict_por_numero_def)

lemma dict_por_numero_Some:
  "dict_por_numero clave xs n = Some r \<Longrightarrow> r \<in> set xs \<and> clave r = n \<and> n \<noteq> 0"
  by (induction xs rule: rev_induct)
     (auto simp: dict_por_numero_snoc dict_por_numero_def split: if_splits)

lemma dict_por_numero_leer_reserva:
  "dict_por_numero numero (map (leer_reserva p) xs) n = Some r \<Longrightarrow>
     \<exists>r0\<in>set xs. r = leer_reserva p r0 \<and> numero r0 = n \<and> n \<noteq> 0"
proof -
  assume "dict_por_numero numero (map (leer_reserva p) xs) n = Some r"
  from dict_por_numero_Some [OF this]
  obtain r0 where "r0 \<in> set xs" "r = leer_reserva p r0" "numero r = n" "n \<noteq> 0"
    by auto
  then show ?thesis by (auto simp: leer_reserva_campos)
qed

lemma dict_por_numero_leer_reserva_None:
  "dict_por_numero numero (map (leer_reserva p) xs) n = None \<longleftrightarrow>
     n = 0 \<or> n \<notin> numero ` set xs"
  by (simp add: dict_por_numero_None image_image leer_reserva_campos)

lemma dict_por_numero_leer_venta_None:
  "dict_por_numero numero_v (map (leer_venta p) xs) n = None \<longleftrightarrow>
     n = 0 \<or> n \<notin> numero_v ` set xs"
  by (simp add: dict_por_numero_None image_image leer_venta_numero)

subsection \<open>The rows limpiar\_reservas\_expiradas deletes\<close>

lemma rows_to_delete_snoc:
  "rows_to_delete now (xs @ [x]) =
     rows_to_delete now xs @ (if expirada now x then [length xs + 2] else [])"
  by (simp add: rows_to_delete_def enumerate_append_eq)

lemma rows_to_delete_leer:
  "rows_to_delete now (map (leer_reserva p) xs) = rows_to_delete now xs"
proof (induction xs rule: rev_induct)
  case Nil
  show ?case by simp
next
  case (snoc x xs)
  have "rows_to_delete now (map (leer_reserva p) xs @ [leer_reserva p x]) =
      rows_to_delete now (xs @ [x])"
    using snoc.IH by (simp only: rows_to_delete_snoc leer_reserva_campos length_map)
  then show ?case by simp
qed

lemma quitar_fila_medio: "quitar_fila (Suc (Suc (length xs))) (xs @ x # ys) = xs @ ys"
  by (simp add: quitar_fila_def)

lemma quitar_fila_indice:
  "i < length xs \<Longrightarrow> quitar_fila (Suc (Suc i)) xs = take i xs @ drop (Suc i) xs"
  by (simp add: quitar_fila_def)

lemma foldl_quitar_fila:
  "foldl (\<lambda>zs k. quitar_fila k zs) (xs @ ys) (rev (rows_to_delete now xs)) =
     filter (\<lambda>r. \<not> expirada now r) xs @ ys"
proof (induction xs arbitrary: ys rule: rev_induct)
  case Nil
  show ?case by (simp add: rows_to_delete_def)
next
  case (snoc x xs)
  show ?case
  proof (cases "expirada now x")
    case True
    then show ?thesis
      using snoc.IH [of ys] by (simp add: rows_to_delete_snoc quitar_fila_medio)
  next
    case False
    then show ?thesis
      using snoc.IH [of "x # ys"] by (simp add: rows_to_delete_snoc)
  qed
qed

lemma limpiar_casos:
  "limpiar_reservas_expiradas now w =
     (if falla w then warning (Error_limpiando_reservas APIError) (avanza w)
      else (case borrar_filas (rev (rows_to_delete now (reservas_worksheet w))) (avanza w) of
              (Inl e, w2) \<Rightarrow> warning (Error_limpiando_reservas e) w2
            | (Inr u, w2) \<Rightarrow> w2))"
  by (simp add: limpiar_reservas_expiradas_def get_all_records_reservas_def rows_to_delete_leer)

lemma borrar_filas_completo:
  "fst (borrar_filas ks w) = Inr () \<Longrightarrow>
   reservas_worksheet (snd (borrar_filas ks w)) =
     foldl (\<lambda>zs k. quitar_fila k zs) (reservas_worksheet w) ks
   \<and> bitacora (snd (borrar_filas ks w)) = bitacora w @ map Delete_reservas ks"
proof (induction ks arbitrary: w)
  case Nil
  show ?case by simp
next
  case (Cons k ks)
  show ?case
  proof (cases "falla w")
    case True
    with Cons.prems show ?thesis by (simp add: delete_rows_reservas_def)
  next
    case False
    let ?w' = "snd (delete_rows_reservas k w)"
    from False have e: "borrar_filas (k # ks) w = borrar_filas ks ?w'"
      by (simp add: delete_rows_reservas_def)
    with Cons.prems have "fst (borrar_filas ks ?w') = Inr ()" by simp
    from Cons.IH [OF this] e False show ?thesis
      by (simp add: delete_rows_reservas_def avanza_def)
  qed
qed

lemma borrar_filas_sin_fallos:
  "fallos w = [] \<Longrightarrow> fst (borrar_filas ks w) = Inr () \<and> fallos (snd (borrar_filas ks w)) = []"
proof (induction ks arbitrary: w)
  case Nil
  then show ?case by simp
next
  case (Cons k ks)
  let ?w' = "snd (delete_rows_reservas k w)"
  from Cons.prems have e: "borrar_filas (k # ks) w = borrar_filas ks ?w'"
    and f: "fallos ?w' = []"
    by (simp_all add: delete_rows_reservas_def falla_sin_fallos avanza_def)
  from Cons.IH [OF f] e show ?case by simp
qed

lemma borrar_filas_paso:
  "borrar_filas (k # ks) w =
     (if falla w then (Inl APIError, avanza w)
      else borrar_filas ks (snd (delete_rows_reservas k w)))"
  by (simp add: delete_rows_reservas_def)

lemma delete_rows_marco:
  "ventas_worksheet (snd (delete_rows_reservas k w)) = ventas_worksheet w"
  "avisos (snd (delete_rows_reservas k w)) = avisos w"
  "lee_numero (snd (delete_rows_reservas k w)) = lee_numero w"
  by (simp_all add: delete_rows_reservas_def avanza_def)

lemma ventas_borrar_filas:
  "ventas_worksheet (snd (borrar_filas ks w)) = ventas_worksheet w"
  by (induction ks arbitrary: w)
     (simp_all add: borrar_filas_paso delete_rows_marco avanza_def del: borrar_filas.simps(2))

lemma avisos_borrar_filas:
  "avisos (snd (borrar_filas ks w)) = avisos w"
  by (induction ks arbitrary: w)
     (simp_all add: borrar_filas_paso delete_rows_marco avanza_def del: borrar_filas.simps(2))

lemma lee_numero_borrar_filas:
  "lee_numero (snd (borrar_filas ks w)) = lee_numero w"
  by (induction ks arbitrary: w)
     (simp_all add: borrar_filas_paso delete_rows_marco avanza_def del: borrar_filas.simps(2))

lemma borrar_filas_resultado:
  "fst (borrar_filas ks w) = Inr () \<or> fst (borrar_filas ks w) = Inl APIError"
  by (induction ks arbitrary: w)
     (simp_all add: borrar_filas_paso del: borrar_filas.simps(2))

lemma limpiar_casos_fst:
  "limpiar_reservas_expiradas now w =
     (if falla w then warning (Error_limpiando_reservas APIError) (avanza w)
      else if fst (borrar_filas (rev (rows_to_delete now (reservas_worksheet w))) (avanza w)) =
              Inr ()
      then snd (borrar_filas (rev (rows_to_delete now (reservas_worksheet w))) (avanza w))
      else warning (Error_limpiando_reservas APIError)
             (snd (borrar_filas (rev (rows_to_delete now (reservas_worksheet w))) (avanza w))))"
  using borrar_filas_resultado [of "rev (rows_to_delete now (reservas_worksheet w))" "avanza w"]
  by (auto simp: limpiar_casos split: prod.splits sum.splits)

lemma ventas_limpiar:
  "ventas_worksheet (limpiar_reservas_expiradas now w) = ventas_worksheet w"
  by (simp add: limpiar_casos_fst warning_def ventas_borrar_filas avanza_def)

lemma lee_numero_limpiar:
  "lee_numero (limpiar_reservas_expiradas now w) = lee_numero w"
  by (simp add: limpiar_casos_fst warning_def lee_numero_borrar_filas avanza_def)

lemma avisos_limpiar:
  "avisos (limpiar_reservas_expiradas now w) = avisos w \<or>
   avisos (limpiar_reservas_expiradas now w) = avisos w @ [Error_limpiando_reservas APIError]"
  by (simp add: limpiar_casos_fst warning_def avisos_borrar_filas avanza_def)

lemma limpiar_sin_aviso:
  assumes "avisos (limpiar_reservas_expiradas now w) = avisos w"
  shows "reservas_worksheet (limpiar_reservas_expiradas now w) =
           filter (\<lambda>r. \<not> expirada now r) (reservas_worksheet w)"
    and "bitacora (limpiar_reservas_expiradas now w) =
           bitacora w @ map Delete_reservas (rev (rows_to_delete now (reservas_worksheet w)))"
proof -
  let ?ks = "rev (rows_to_delete now (reservas_worksheet w))"
  from assms have f: "\<not> falla w" and b: "fst (borrar_filas ?ks (avanza w)) = Inr ()"
    by (auto simp: limpiar_casos_fst warning_def avisos_borrar_filas avanza_def
        split: if_splits)
  from borrar_filas_completo [OF b] f b
    foldl_quitar_fila [of "reservas_worksheet w" "[]" now]
  show "reservas_worksheet (limpiar_reservas_expiradas now w) =
           filter (\<lambda>r. \<not> expirada now r) (reservas_worksheet w)"
    and "bitacora (limpiar_reservas_expiradas now w) = bitacora w @ map Delete_reservas ?ks"
    by (simp_all add: limpiar_casos_fst avanza_def)
qed

lemma limpiar_sin_fallos:
  assumes "fallos w = []"
  shows "avisos (limpiar_reservas_expiradas now w) = avisos w"
    and "fallos (limpiar_reservas_expiradas now w) = []"
proof -
  let ?ks = "rev (rows_to_delete now (reservas_worksheet w))"
  have a: "fallos (avanza w) = []" using assms by (simp add: avanza_def)
  from borrar_filas_sin_fallos [OF a, of ?ks] assms
  show "avisos (limpiar_reservas_expiradas now w) = avisos w"
    and "fallos (limpiar_reservas_expiradas now w) = []"
    by (simp_all add: limpiar_casos_fst falla_sin_fallos avisos_borrar_filas avanza_def)
qed

lemma reservas_limpiar_sin_fallos:
  "fallos w = [] \<Longrightarrow>
   reservas_worksheet (limpiar_reservas_expiradas now w) =
     filter (\<lambda>r. \<not> expirada now r) (reservas_worksheet w)"
  by (simp add: limpiar_sin_aviso limpiar_sin_fallos)

lemma bitacora_borrar_filas:
  "\<exists>ks'. bitacora (snd (borrar_filas ks w)) = bitacora w @ map Delete_reservas ks'"
proof (induction ks arbitrary: w)
  case Nil
  show ?case by simp
next
  case (Cons k ks)
  show ?case
  proof (cases "falla w")
    case True
    then have "bitacora (snd (borrar_filas (k # ks) w)) = bitacora w @ map Delete_reservas []"
      by (simp add: borrar_filas_paso avanza_def del: borrar_filas.simps(2))
    then show ?thesis by blast
  next
    case False
    let ?w' = "snd (delete_rows_reservas k w)"
    from Cons.IH [of ?w'] obtain ks' where
      "bitacora (snd (borrar_filas ks ?w')) = bitacora ?w' @ map Delete_reservas ks'" ..
    with False have
      "bitacora (snd (borrar_filas (k # ks) w)) = bitacora w @ map Delete_reservas (k # ks')"
      by (simp add: borrar_filas_paso delete_rows_reservas_def avanza_def
          del: borrar_filas.simps(2))
    then show ?thesis by blast
  qed
qed

lemma bitacora_limpiar:
  "\<exists>ks. bitacora (limpiar_reservas_expiradas now w) = bitacora w @ map Delete_reservas ks"
proof (cases "falla w")
  case True
  then have "bitacora (limpiar_reservas_expiradas now w) = bitacora w @ map Delete_reservas []"
    by (simp add: limpiar_casos_fst warning_def avanza_def)
  then show ?thesis by blast
next
  case False
  let ?ks = "rev (rows_to_delete now (reservas_worksheet w))"
  from bitacora_borrar_filas [of ?ks "avanza w"] obtain ks' where
    "bitacora (snd (borrar_filas ?ks (avanza w))) = bitacora w @ map Delete_reservas ks'"
    by (auto simp: avanza_def)
  with False have
    "bitacora (limpiar_reservas_expiradas now w) = bitacora w @ map Delete_reservas ks'"
    by (simp add: limpiar_casos_fst warning_def)
  then show ?thesis by blast
qed

lemma borrar_filas_parcial:
  "reservas_worksheet w = xs @ ys \<Longrightarrow>
   \<exists>p\<le>length xs.
     reservas_worksheet (snd (borrar_filas (rev (rows_to_delete now xs)) w)) =
       take p xs @ filter (\<lambda>r. \<not> expirada now r) (drop p xs) @ ys"
proof (induction xs arbitrary: ys w rule: rev_induct)
  case Nil
  then show ?case by (simp add: rows_to_delete_def)
next
  case (snoc x xs)
  show ?case
  proof (cases "expirada now x")
    case False
    from snoc.prems have "reservas_worksheet w = xs @ x # ys" by simp
    from snoc.IH [OF this] obtain p where p: "p \<le> length xs"
      and r: "reservas_worksheet (snd (borrar_filas (rev (rows_to_delete now xs)) w)) =
        take p xs @ filter (\<lambda>r. \<not> expirada now r) (drop p xs) @ x # ys"
      by blast
    from p r False have
      "p \<le> length (xs @ [x]) \<and>
       reservas_worksheet (snd (borrar_filas (rev (rows_to_delete now (xs @ [x]))) w)) =
        take p (xs @ [x]) @ filter (\<lambda>r. \<not> expirada now r) (drop p (xs @ [x])) @ ys"
      by (simp add: rows_to_delete_snoc)
    then show ?thesis by blast
  next
    case True
    show ?thesis
    proof (cases "falla w")
      case f: True
      with True snoc.prems have
        "length (xs @ [x]) \<le> length (xs @ [x]) \<and>
         reservas_worksheet (snd (borrar_filas (rev (rows_to_delete now (xs @ [x]))) w)) =
          take (length (xs @ [x])) (xs @ [x]) @
          filter (\<lambda>r. \<not> expirada now r) (drop (length (xs @ [x])) (xs @ [x])) @ ys"
        by (simp add: rows_to_delete_snoc delete_rows_reservas_def avanza_def)
      then show ?thesis by blast
    next
      case f: False
      let ?w' = "snd (delete_rows_reservas (Suc (Suc (length xs))) w)"
      from f snoc.prems have w': "reservas_worksheet ?w' = xs @ ys"
        by (simp add: delete_rows_reservas_def avanza_def quitar_fila_medio)
      from snoc.IH [OF w'] obtain p where p: "p \<le> length xs"
        and r: "reservas_worksheet (snd (borrar_filas (rev (rows_to_delete now xs)) ?w')) =
          take p xs @ filter (\<lambda>r. \<not> expirada now r) (drop p xs) @ ys"
        by blast
      from f have
        "borrar_filas (rev (rows_to_delete now (xs @ [x]))) w =
           borrar_filas (rev (rows_to_delete now xs)) ?w'"
        using True by (simp add: rows_to_delete_snoc delete_rows_reservas_def)
      with p r True have
        "p \<le> length (xs @ [x]) \<and>
         reservas_worksheet (snd (borrar_filas (rev (rows_to_delete now (xs @ [x]))) w)) =
          take p (xs @ [x]) @ filter (\<lambda>r. \<not> expirada now r) (drop p (xs @ [x])) @ ys"
        by simp
      then show ?thesis by blast
    qed
  qed
qed

lemma limpiar_parcial:
  "\<exists>p\<le>length (reservas_worksheet w).
     reservas_worksheet (limpiar_reservas_expiradas now w) =
       take p (reservas_worksheet w) @
       filter (\<lambda>r. \<not> expirada now r) (drop p (reservas_worksheet w))"
proof (cases "falla w")
  case True
  then have
    "reservas_worksheet (limpiar_reservas_expiradas now w) =
       take (length (reservas_worksheet w)) (reservas_worksheet w) @
       filter (\<lambda>r. \<not> expirada now r)
         (drop (length (reservas_worksheet w)) (reservas_worksheet w))"
    by (simp add: limpiar_casos_fst warning_def avanza_def)
  then show ?thesis by blast
next
  case False
  let ?xs = "reservas_worksheet w"
  let ?ks = "rev (rows_to_delete now ?xs)"
  have "reservas_worksheet (avanza w) = ?xs @ []" by (simp add: avanza_def)
  from borrar_filas_parcial [OF this, of now] obtain p where p: "p \<le> length ?xs"
    and r: "reservas_worksheet (snd (borrar_filas ?ks (avanza w))) =
      take p ?xs @ filter (\<lambda>r. \<not> expirada now r) (drop p ?xs)"
    by auto
  have "reservas_worksheet (limpiar_reservas_expiradas now w) =
      reservas_worksheet (snd (borrar_filas ?ks (avanza w)))"
    using False by (simp add: limpiar_casos_fst warning_def)
  with p r show ?thesis by auto
qed

lemma limpiar_conserva_vigentes:
  "filter (\<lambda>r. \<not> expirada now r) (reservas_worksheet (limpiar_reservas_expiradas now w)) =
   filter (\<lambda>r. \<not> expirada now r) (reservas_worksheet w)"
proof -
  from limpiar_parcial [of w now] obtain p where
    "reservas_worksheet (limpiar_reservas_expiradas now w) =
       take p (reservas_worksheet w) @
       filter (\<lambda>r. \<not> expirada now r) (drop p (reservas_worksheet w))"
    by blast
  then have
    "filter (\<lambda>r. \<not> expirada now r) (reservas_worksheet (limpiar_reservas_expiradas now w)) =
     filter (\<lambda>r. \<not> expirada now r) (take p (reservas_worksheet w) @ drop p (reservas_worksheet w))"
    by (simp del: append_take_drop_id)
  then show ?thesis by simp
qed

lemma limpiar_subconjunto:
  "set (reservas_worksheet (limpiar_reservas_expiradas now w)) \<subseteq> set (reservas_worksheet w)"
proof -
  from limpiar_parcial [of w now] obtain p where
    "reservas_worksheet (limpiar_reservas_expiradas now w) =
       take p (reservas_worksheet w) @
       filter (\<lambda>r. \<not> expirada now r) (drop p (reservas_worksheet w))"
    by blast
  then show ?thesis
    by (auto dest: in_set_takeD in_set_dropD)
qed

lemma limpiar_vigente_queda:
  "r \<in> set (reservas_worksheet w) \<Longrightarrow> \<not> expirada now r \<Longrightarrow>
   r \<in> set (reservas_worksheet (limpiar_reservas_expiradas now w))"
proof -
  assume "r \<in> set (reservas_worksheet w)" "\<not> expirada now r"
  then have "r \<in> set (filter (\<lambda>r. \<not> expirada now r) (reservas_worksheet w))" by simp
  then have "r \<in> set (filter (\<lambda>r. \<not> expirada now r)
      (reservas_worksheet (limpiar_reservas_expiradas now w)))"
    by (simp only: limpiar_conserva_vigentes)
  then show ?thesis by simp
qed

subsection \<open>obtener\_numeros\_vendidos and obtener\_numeros\_reservados\<close>

lemma obtener_numeros_vendidos_casos:
  "obtener_numeros_vendidos w =
     (if falla w then (Map.empty, avanza w)
      else (dict_por_numero numero_v (map (leer_venta (lee_numero w)) (ventas_worksheet w)),
            avanza w))"
  by (simp add: obtener_numeros_vendidos_def get_all_records_ventas_def)

lemma snd_obtener_numeros_vendidos: "snd (obtener_numeros_vendidos w) = avanza w"
  by (simp add: obtener_numeros_vendidos_casos)

lemma vendidos_None:
  "fst (obtener_numeros_vendidos w) n = None \<longleftrightarrow>
     falla w \<or> n = 0 \<or> n \<notin> numero_v ` set (ventas_worksheet w)"
  by (simp add: obtener_numeros_vendidos_casos dict_por_numero_leer_venta_None)

lemma obtener_numeros_reservados_casos:
  "obtener_numeros_reservados now w =
     (if falla (limpiar_reservas_expiradas now w)
      then (Map.empty, avanza (limpiar_reservas_expiradas now w))
      else (dict_por_numero numero
              (map (leer_reserva (lee_numero w))
                 (reservas_worksheet (limpiar_reservas_expiradas now w))),
            avanza (limpiar_reservas_expiradas now w)))"
  by (simp add: obtener_numeros_reservados_def get_all_records_reservas_def lee_numero_limpiar)

lemma snd_obtener_numeros_reservados:
  "snd (obtener_numeros_reservados now w) = avanza (limpiar_reservas_expiradas now w)"
  by (simp add: obtener_numeros_reservados_casos)

lemma reservados_None:
  "fst (obtener_numeros_reservados now w) n = None \<longleftrightarrow>
     falla (limpiar_reservas_expiradas now w) \<or> n = 0 \<or>
     n \<notin> numero ` set (reservas_worksheet (limpiar_reservas_expiradas now w))"
  by (simp add: obtener_numeros_reservados_casos dict_por_numero_leer_reserva_None)

lemma reservados_Some:
  assumes "fst (obtener_numeros_reservados now w) n = Some r"
  shows "\<not> falla (limpiar_reservas_expiradas now w)"
    and "n \<noteq> 0" and "numero r = n"
    and "\<exists>r0\<in>set (reservas_worksheet (limpiar_reservas_expiradas now w)).
           r = leer_reserva (lee_numero w) r0"
proof -
  from assms show f: "\<not> falla (limpiar_reservas_expiradas now w)"
    by (auto simp: obtener_numeros_reservados_casos split: if_splits)
  with assms have "dict_por_numero numero
      (map (leer_reserva (lee_numero w))
         (reservas_worksheet (limpiar_reservas_expiradas now w))) n = Some r"
    by (simp add: obtener_numeros_reservados_casos)
  from dict_por_numero_leer_reserva [OF this]
  show "n \<noteq> 0" and "numero r = n"
    and "\<exists>r0\<in>set (reservas_worksheet (limpiar_reservas_expiradas now w)).
           r = leer_reserva (lee_numero w) r0"
    by (auto simp: leer_reserva_campos)
qed

lemma reservados_Some_Texto:
  assumes "fst (obtener_numeros_reservados now w) n = Some r" and "vendedor r = Texto v"
  shows "r \<in> set (reservas_worksheet (limpiar_reservas_expiradas now w))"
proof -
  from reservados_Some(4) [OF assms(1)] obtain r0 where
    r0: "r0 \<in> set (reservas_worksheet (limpiar_reservas_expiradas now w))"
    and r: "r = leer_reserva (lee_numero w) r0" by blast
  from assms(2) r have "leer_reserva (lee_numero w) r0 = r0"
    by (auto intro: leer_reserva_igual)
  with r r0 show ?thesis by simp
qed

subsection \<open>reservar\_numero, confirmar\_venta and cancelar\_reserva by cases\<close>

lemma reservar_casos:
  "reservar_numero num vend minutos now_l now w =
     (if fst (obtener_numeros_vendidos w) num \<noteq> None
      then ((False, Numero_ya_vendido), snd (obtener_numeros_reservados now_l (avanza w)))
      else (case fst (obtener_numeros_reservados now_l (avanza w)) num of
              Some r \<Rightarrow>
                ((False, Numero_reservado_por (str_celda (vendedor r))),
                 snd (obtener_numeros_reservados now_l (avanza w)))
            | None \<Rightarrow>
                (case nueva_reserva num vend minutos now of
                   Inl e \<Rightarrow>
                     ((False, Error_reservando e),
                      snd (obtener_numeros_reservados now_l (avanza w)))
                 | Inr fila \<Rightarrow>
                     if falla (snd (obtener_numeros_reservados now_l (avanza w)))
                     then ((False, Error_reservando APIError),
                           avanza (snd (obtener_numeros_reservados now_l (avanza w))))
                     else ((True, Numero_reservado_exitosamente),
                           snd (append_row_reservas fila
                             (snd (obtener_numeros_reservados now_l (avanza w))))))))"
  by (simp add: reservar_numero_def append_row_reservas_def
      snd_obtener_numeros_vendidos [symmetric]
      split: prod.splits option.splits sum.splits)

lemma confirmar_casos:
  "confirmar_venta num compr tel vend now_l now w =
     (case fst (obtener_numeros_reservados now_l w) num of
        None \<Rightarrow> ((False, Numero_no_esta_reservado), snd (obtener_numeros_reservados now_l w))
      | Some r \<Rightarrow>
          if vendedor r \<noteq> Texto vend
          then ((False, No_tienes_la_reserva_de_este_numero),
                snd (obtener_numeros_reservados now_l w))
          else if falla (snd (obtener_numeros_reservados now_l w))
          then ((False, Error_confirmando_venta APIError),
                avanza (snd (obtener_numeros_reservados now_l w)))
          else ((True, Venta_confirmada_exitosamente),
                cancelar_reserva num vend
                  (snd (append_row_ventas (fila_venta num compr tel vend now)
                     (snd (obtener_numeros_reservados now_l w))))))"
  by (simp add: confirmar_venta_def append_row_ventas_def split: prod.splits option.splits)

lemma buscar_reserva_None:
  "buscar_reserva num vend i xs = None \<longleftrightarrow>
     (\<forall>r\<in>set xs. \<not> (numero r = num \<and> vendedor r = Texto vend))"
  by (induction xs arbitrary: i) auto

lemma buscar_reserva_Some:
  "buscar_reserva num vend i xs = Some j \<Longrightarrow>
     i \<le> j \<and> j - i < length xs \<and> numero (xs ! (j - i)) = num
     \<and> vendedor (xs ! (j - i)) = Texto vend
     \<and> (\<forall>k<j - i. \<not> (numero (xs ! k) = num \<and> vendedor (xs ! k) = Texto vend))"
proof (induction xs arbitrary: i)
  case Nil
  then show ?case by simp
next
  case (Cons r rs)
  show ?case
  proof (cases "numero r = num \<and> vendedor r = Texto vend")
    case True
    with Cons.prems show ?thesis by simp
  next
    case False
    with Cons.prems have b: "buscar_reserva num vend (Suc i) rs = Some j" by auto
    from Cons.IH [OF b] have i: "Suc i \<le> j" and l: "j - Suc i < length rs"
      and m: "numero (rs ! (j - Suc i)) = num" "vendedor (rs ! (j - Suc i)) = Texto vend"
      and p: "\<forall>k<j - Suc i. \<not> (numero (rs ! k) = num \<and> vendedor (rs ! k) = Texto vend)"
      by simp_all
    from i have s: "j - i = Suc (j - Suc i)" by simp
    have "\<forall>k<j - i. \<not> (numero ((r # rs) ! k) = num \<and> vendedor ((r # rs) ! k) = Texto vend)"
    proof (intro allI impI)
      fix k assume k: "k < j - i"
      show "\<not> (numero ((r # rs) ! k) = num \<and> vendedor ((r # rs) ! k) = Texto vend)"
      proof (cases k)
        case 0
        with False show ?thesis by simp
      next
        case (Suc k')
        with k s have "k' < j - Suc i" by simp
        with p Suc show ?thesis by simp
      qed
    qed
    with i l m s show ?thesis by simp
  qed
qed

lemma buscar_reserva_leer:
  "buscar_reserva num vend i (map (leer_reserva p) xs) =
     (if p vend = None then buscar_reserva num vend i xs else None)"
  by (induction xs arbitrary: i) (auto simp: leer_reserva_campos numericise_Texto)

lemma buscar_reserva_existe:
  assumes "r \<in> set xs" and "numero r = num" and "vendedor r = Texto vend"
  shows "\<exists>i. buscar_reserva num vend 0 xs = Some i"
proof (cases "buscar_reserva num vend 0 xs")
  case None
  with assms show ?thesis by (auto simp: buscar_reserva_None)
next
  case (Some i)
  then show ?thesis by blast
qed

lemma cancelar_casos:
  "cancelar_reserva num vend w =
     (if falla w then warning (Error_cancelando_reserva APIError) (avanza w)
      else (case buscar_reserva num vend 0
                   (map (leer_reserva (lee_numero w)) (reservas_worksheet w)) of
              None \<Rightarrow> avanza w
            | Some i \<Rightarrow>
                if falla (avanza w)
                then warning (Error_cancelando_reserva APIError) (avanza (avanza w))
                else (avanza (avanza w))
                       \<lparr>reservas_worksheet := quitar_fila (i + 2) (reservas_worksheet w),
                        bitacora := bitacora w @ [Delete_reservas (i + 2)]\<rparr>))"
  by (simp add: cancelar_reserva_def get_all_records_reservas_def delete_rows_reservas_def
      avanza_def split: option.splits)

lemma ventas_cancelar:
  "ventas_worksheet (cancelar_reserva num vend w) = ventas_worksheet w"
  by (simp add: cancelar_casos warning_def avanza_def split: option.splits)

subsection \<open>What cancelar\_reserva deletes\<close>

lemma filter_quitar:
  assumes "i < length xs" and "\<not> Q (xs ! i)"
  shows "filter Q (take i xs @ drop (Suc i) xs) = filter Q xs"
proof -
  have "filter Q xs = filter Q (take i xs @ xs ! i # drop (Suc i) xs)"
    using assms(1) by (simp add: id_take_nth_drop [symmetric])
  with assms(2) show ?thesis by simp
qed

lemma cancelar_sin_coincidencia:
  assumes "\<forall>r\<in>set (reservas_worksheet w). \<not> (numero r = num \<and> vendedor r = Texto vend)"
  shows "reservas_worksheet (cancelar_reserva num vend w) = reservas_worksheet w"
    and "bitacora (cancelar_reserva num vend w) = bitacora w"
    and "\<not> falla w \<Longrightarrow> avisos (cancelar_reserva num vend w) = avisos w"
  using assms buscar_reserva_None [of num vend 0 "reservas_worksheet w"]
  by (simp_all add: cancelar_casos buscar_reserva_leer warning_def avanza_def)

lemma cancelar_respeta_ajenas:
  "filter (\<lambda>r. \<not> (numero r = num \<and> vendedor r = Texto vend))
     (reservas_worksheet (cancelar_reserva num vend w)) =
   filter (\<lambda>r. \<not> (numero r = num \<and> vendedor r = Texto vend)) (reservas_worksheet w)"
proof (cases "buscar_reserva num vend 0 (reservas_worksheet w)")
  case None
  then show ?thesis
    by (simp add: cancelar_casos buscar_reserva_leer warning_def avanza_def)
next
  case (Some i)
  from buscar_reserva_Some [OF Some] have
    i: "i < length (reservas_worksheet w)"
    and m: "\<not> \<not> (numero (reservas_worksheet w ! i) = num \<and>
                 vendedor (reservas_worksheet w ! i) = Texto vend)"
    by simp_all
  from filter_quitar [of i "reservas_worksheet w"
      "\<lambda>r. \<not> (numero r = num \<and> vendedor r = Texto vend)"] i m Some
  show ?thesis
    by (simp add: cancelar_casos buscar_reserva_leer warning_def avanza_def
        quitar_fila_indice)
qed

lemma cancelar_con_fallo:
  assumes "r \<in> set (reservas_worksheet w)" and "numero r = num"
    and "vendedor r = Texto vend" and "lee_numero w vend = None"
    and "falla w \<or> falla (avanza w)"
  shows "reservas_worksheet (cancelar_reserva num vend w) = reservas_worksheet w"
    and "bitacora (cancelar_reserva num vend w) = bitacora w"
    and "avisos (cancelar_reserva num vend w) =
           avisos w @ [Error_cancelando_reserva APIError]"
proof -
  from buscar_reserva_existe [OF assms(1,2,3)] obtain i where
    "buscar_reserva num vend 0 (reservas_worksheet w) = Some i" ..
  with assms(4,5) show
    "reservas_worksheet (cancelar_reserva num vend w) = reservas_worksheet w"
    "bitacora (cancelar_reserva num vend w) = bitacora w"
    "avisos (cancelar_reserva num vend w) = avisos w @ [Error_cancelando_reserva APIError]"
    by (auto simp: cancelar_casos buscar_reserva_leer warning_def avanza_def)
qed

subsection \<open>A number with a row in ventas\<close>

lemma grilla_casos:
  "fst (mostrar_grilla_numeros now w) =
     estado_numero (fst (obtener_numeros_vendidos w))
       (fst (obtener_numeros_reservados now (avanza w)))"
  by (simp add: mostrar_grilla_numeros_def snd_obtener_numeros_vendidos [symmetric]
      split: prod.splits)

lemma grilla_vendido:
  assumes "\<not> falla x" and "n \<noteq> 0" and "n \<in> numero_v ` set (ventas_worksheet x)"
  shows "\<exists>info. fst (mostrar_grilla_numeros now x) n = Vendido info"
proof -
  from assms have "fst (obtener_numeros_vendidos x) n \<noteq> None"
    by (simp add: vendidos_None)
  then obtain info where "fst (obtener_numeros_vendidos x) n = Some info"
    by blast
  then have "fst (mostrar_grilla_numeros now x) n = Vendido info"
    by (simp add: grilla_casos estado_numero_def)
  then show ?thesis by blast
qed

lemma reservar_rechazo_vendido:
  assumes "\<not> falla w" and "num \<noteq> 0" and "num \<in> numero_v ` set (ventas_worksheet w)"
  shows "fst (reservar_numero num vend minutos now_l now w) = (False, Numero_ya_vendido)"
  using assms by (simp add: reservar_casos vendidos_None)

subsection \<open>Evaluating the calls on a concrete ledger\<close>

lemmas evaluar =
  reservar_casos confirmar_casos cancelar_casos limpiar_casos grilla_casos
  obtener_numeros_vendidos_casos obtener_numeros_reservados_casos
  append_row_reservas_def append_row_ventas_def delete_rows_reservas_def
  falla_def avanza_def warning_def rows_to_delete_def expirada_def dict_por_numero_def
  nueva_reserva_def timedelta_minutes_def datetime_add_def datetime_max_def fila_venta_def
  quitar_fila_def leer_reserva_def leer_venta_def numero_py_def estado_numero_def

lemma bitacora_borrar_filas_prefijo:
  "\<exists>n. bitacora (snd (borrar_filas ks w)) = bitacora w @ map Delete_reservas (take n ks)"
proof (induction ks arbitrary: w)
  case Nil
  show ?case by simp
next
  case (Cons k ks)
  show ?case
  proof (cases "falla w")
    case True
    then have "bitacora (snd (borrar_filas (k # ks) w)) =
        bitacora w @ map Delete_reservas (take 0 (k # ks))"
      by (simp add: borrar_filas_paso avanza_def del: borrar_filas.simps(2))
    then show ?thesis by blast
  next
    case False
    from Cons.IH [of "snd (delete_rows_reservas k w)"] obtain n where
      "bitacora (snd (borrar_filas ks (snd (delete_rows_reservas k w)))) =
         bitacora (snd (delete_rows_reservas k w)) @ map Delete_reservas (take n ks)"
      by blast
    with False have "bitacora (snd (borrar_filas (k # ks) w)) =
        bitacora w @ map Delete_reservas (take (Suc n) (k # ks))"
      by (simp add: borrar_filas_paso delete_rows_reservas_def del: borrar_filas.simps(2))
    then show ?thesis by blast
  qed
qed

lemma bitacora_limpiar_prefijo:
  "\<exists>n. bitacora (limpiar_reservas_expiradas now w) =
     bitacora w @ map Delete_reservas (take n (rev (rows_to_delete now (reservas_worksheet w))))"
proof (cases "falla w")
  case True
  then have "bitacora (limpiar_reservas_expiradas now w) =
      bitacora w @ map Delete_reservas (take 0 (rev (rows_to_delete now (reservas_worksheet w))))"
    by (simp add: limpiar_casos_fst warning_def avanza_def)
  then show ?thesis by blast
next
  case False
  from bitacora_borrar_filas_prefijo
    [of "rev (rows_to_delete now (reservas_worksheet w))" "avanza w"]
  obtain n where "bitacora (snd (borrar_filas (rev (rows_to_delete now (reservas_worksheet w)))
       (avanza w))) =
     bitacora w @ map Delete_reservas (take n (rev (rows_to_delete now (reservas_worksheet w))))"
    by (auto simp: avanza_def)
  with False have "bitacora (limpiar_reservas_expiradas now w) =
     bitacora w @ map Delete_reservas (take n (rev (rows_to_delete now (reservas_worksheet w))))"
    by (simp add: limpiar_casos_fst warning_def)
  then show ?thesis by blast
qed

lemma dict_por_numero_ultimo:
  "clave r = n \<Longrightarrow> n \<noteq> 0 \<Longrightarrow> n \<notin> clave ` set zs \<Longrightarrow>
   dict_por_numero clave (ys @ r # zs) n = Some r"
proof (induction zs rule: rev_induct)
  case Nil
  then show ?case by (simp add: dict_por_numero_snoc)
next
  case (snoc z zs)
  then have "dict_por_numero clave (ys @ r # zs) n = Some r" by simp
  moreover have "clave z \<noteq> n" using snoc.prems by auto
  ultimately show ?case
    using dict_por_numero_snoc [of clave "ys @ r # zs" z] by simp
qed

lemma limpiar_ultimo_vigente:
  assumes "reservas_worksheet w = ys @ r # zs" and "\<not> expirada now r"
  shows "\<exists>ys' zs'. reservas_worksheet (limpiar_reservas_expiradas now w) = ys' @ r # zs'
           \<and> set zs' \<subseteq> set zs"
proof -
  let ?Q = "\<lambda>r. \<not> expirada now r"
  from limpiar_parcial [of w now] obtain p where
    p: "reservas_worksheet (limpiar_reservas_expiradas now w) =
          take p (ys @ r # zs) @ filter ?Q (drop p (ys @ r # zs))"
    using assms(1) by auto
  show ?thesis
  proof (cases "p \<le> length ys")
    case True
    then have "take p (ys @ r # zs) @ filter ?Q (drop p (ys @ r # zs)) =
        (take p ys @ filter ?Q (drop p ys)) @ r # filter ?Q zs"
      using assms(2) by simp
    with p show ?thesis by (metis filter_is_subset)
  next
    case False
    then obtain k where k: "p = Suc (length ys + k)"
      by (metis less_imp_Suc_add not_le)
    have "take p (ys @ r # zs) @ filter ?Q (drop p (ys @ r # zs)) =
        ys @ r # (take k zs @ filter ?Q (drop k zs))"
      by (simp add: k)
    moreover have "set (take k zs @ filter ?Q (drop k zs)) \<subseteq> set zs"
      using set_take_subset [of k zs] set_drop_subset [of k zs] by auto
    ultimately show ?thesis using p by metis
  qed
qed

lemma reservados_ultimo:
  assumes "reservas_worksheet w = ys @ r # zs" and "\<not> expirada now r"
    and "numero r = n" and "n \<noteq> 0" and "n \<notin> numero ` set zs"
    and "\<not> falla (limpiar_reservas_expiradas now w)"
  shows "fst (obtener_numeros_reservados now w) n = Some (leer_reserva (lee_numero w) r)"
proof -
  from limpiar_ultimo_vigente [OF assms(1,2)] obtain ys' zs' where
    x: "reservas_worksheet (limpiar_reservas_expiradas now w) = ys' @ r # zs'"
    "set zs' \<subseteq> set zs" by blast
  let ?p = "lee_numero w"
  have "n \<notin> numero ` set (map (leer_reserva ?p) zs')"
    using x(2) assms(5) by (auto simp: leer_reserva_campos)
  then have "dict_por_numero numero
      (map (leer_reserva ?p) ys' @ leer_reserva ?p r # map (leer_reserva ?p) zs') n =
      Some (leer_reserva ?p r)"
    using assms(3,4) by (intro dict_por_numero_ultimo) (simp_all add: leer_reserva_campos)
  with x(1) assms(6) show ?thesis
    by (simp add: obtener_numeros_reservados_casos)
qed

lemma cancelar_resultado:
  assumes "r \<in> set (reservas_worksheet w)" and "numero r = num"
    and "vendedor r = Texto vend" and "lee_numero w vend = None"
  shows "\<exists>i<length (reservas_worksheet w).
     numero (reservas_worksheet w ! i) = num \<and> vendedor (reservas_worksheet w ! i) = Texto vend
     \<and> (\<forall>k<i. \<not> (numero (reservas_worksheet w ! k) = num
                  \<and> vendedor (reservas_worksheet w ! k) = Texto vend))
     \<and> (if falla w \<or> falla (avanza w)
        then reservas_worksheet (cancelar_reserva num vend w) = reservas_worksheet w
           \<and> bitacora (cancelar_reserva num vend w) = bitacora w
           \<and> avisos (cancelar_reserva num vend w) =
               avisos w @ [Error_cancelando_reserva APIError]
        else reservas_worksheet (cancelar_reserva num vend w) =
               take i (reservas_worksheet w) @ drop (Suc i) (reservas_worksheet w)
           \<and> bitacora (cancelar_reserva num vend w) = bitacora w @ [Delete_reservas (i + 2)]
           \<and> avisos (cancelar_reserva num vend w) = avisos w)"
proof -
  from buscar_reserva_existe [OF assms(1,2,3)] obtain i where
    i: "buscar_reserva num vend 0 (reservas_worksheet w) = Some i" by blast
  note b = buscar_reserva_Some [OF i]
  have "if falla w \<or> falla (avanza w)
        then reservas_worksheet (cancelar_reserva num vend w) = reservas_worksheet w
           \<and> bitacora (cancelar_reserva num vend w) = bitacora w
           \<and> avisos (cancelar_reserva num vend w) =
               avisos w @ [Error_cancelando_reserva APIError]
        else reservas_worksheet (cancelar_reserva num vend w) =
               take i (reservas_worksheet w) @ drop (Suc i) (reservas_worksheet w)
           \<and> bitacora (cancelar_reserva num vend w) = bitacora w @ [Delete_reservas (i + 2)]
           \<and> avisos (cancelar_reserva num vend w) = avisos w"
    using i b assms(4)
    by (simp add: cancelar_casos buscar_reserva_leer warning_def avanza_def quitar_fila_indice)
  with b show ?thesis by auto
qed

section \<open>The claims\<close>

subsection \<open>C1: one sale per number\<close>

text \<open>
  C1: starting from the empty ledger, after any sequence of completed calls every number
  has at most one row in \<open>ventas\<close>. The code does not keep this; two runs from the empty
  ledger end with two sales of ticket 3.

  In the first, A reserves and confirms ticket 3; B then reserves it while the read
  of \<open>ventas\<close> raises. The bare \<open>except: return {}\<close> of \<open>obtener_numeros_vendidos\<close> turns the
  exception into "nothing is sold", so the test \<open>numero in vendidos\<close> passes and
  \<open>reservar_numero\<close> returns \<open>True\<close> on a sold ticket; B confirms, and \<open>ventas\<close> holds a
  sale of ticket 3 by A and another by B.

  In the second, A reserves ticket 3 and confirms it while the \<open>delete_rows\<close> of
  \<open>cancelar_reserva\<close> raises: the sale is appended and the reservation stays. A confirms
  again: \<open>confirmar_venta\<close> never looks at \<open>ventas\<close>, finds the reservation, and appends a
  second sale of ticket 3.
\<close>

theorem dos_ventas_de_un_numero:
  "fst (ejecutar (Reservar 3 ''B'' 5 2 2)
      (ejecutar_todas [Reservar 3 ''A'' 5 0 0, Confirmar 3 ''X'' ''555'' ''A'' 1 1]
         (hojas [] [] [False, False, False, False, False, False, False, False, False, True]))) =
     Tupla True Numero_reservado_exitosamente
   \<and> ejecutar_todas
       [Reservar 3 ''A'' 5 0 0, Confirmar 3 ''X'' ''555'' ''A'' 1 1,
        Reservar 3 ''B'' 5 2 2, Confirmar 3 ''Y'' ''556'' ''B'' 3 3]
       (hojas [] [] [False, False, False, False, False, False, False, False, False, True]) =
     hojas_con
       [ven 3 (Texto ''X'') (Texto ''555'') (Texto ''A'') 0 1,
        ven 3 (Texto ''Y'') (Texto ''556'') (Texto ''B'') 0 3]
       [] [] []
       [Append_reservas (res 3 ''A'' 0 300000000),
        Append_ventas (ven 3 (Texto ''X'') (Texto ''555'') (Texto ''A'') 0 1),
        Delete_reservas 2,
        Append_reservas (res 3 ''B'' 2 300000002),
        Append_ventas (ven 3 (Texto ''Y'') (Texto ''556'') (Texto ''B'') 0 3),
        Delete_reservas 2]
   \<and> fst (ejecutar (Confirmar 3 ''X'' ''555'' ''A'' 2 2)
      (ejecutar_todas [Reservar 3 ''A'' 5 0 0, Confirmar 3 ''X'' ''555'' ''A'' 1 1]
         (hojas [] [] [False, False, False, False, False, False, False, False, True]))) =
     Tupla True Venta_confirmada_exitosamente
   \<and> ejecutar_todas
       [Reservar 3 ''A'' 5 0 0, Confirmar 3 ''X'' ''555'' ''A'' 1 1,
        Confirmar 3 ''X'' ''555'' ''A'' 2 2]
       (hojas [] [] [False, False, False, False, False, False, False, False, True]) =
     hojas_con
       [ven 3 (Texto ''X'') (Texto ''555'') (Texto ''A'') 0 1,
        ven 3 (Texto ''X'') (Texto ''555'') (Texto ''A'') 0 2]
       [] [] [Error_cancelando_reserva APIError]
       [Append_reservas (res 3 ''A'' 0 300000000),
        Append_ventas (ven 3 (Texto ''X'') (Texto ''555'') (Texto ''A'') 0 1),
        Append_ventas (ven 3 (Texto ''X'') (Texto ''555'') (Texto ''A'') 0 2),
        Delete_reservas 2]"
  by (simp add: evaluar)

subsection \<open>C2: reserving a number that is taken\<close>

text \<open>
  C2: for every number and seller, \<open>reservar_numero\<close> on a number that has a sale is
  rejected as already sold, and on a number with a live reservation of another seller is
  rejected naming that holder; in both cases no row is appended. The tests are there
  (\<open>numero in vendidos\<close>, \<open>numero in reservados\<close>), but both mappings come from methods
  whose bare \<open>except: return {}\<close> turns a failed read into an empty mapping, and the
  comprehension leaves number 0 out of it. So the code does each of the following.

  \<^item> Ticket 3 is sold; B reserves it while the read of \<open>ventas\<close> raises: the call returns
    \<open>True\<close> and appends a reservation of the sold ticket.
  \<^item> From the empty ledger A reserves ticket 3, and B reserves it before the expiry
    while the read of \<open>reservas\<close> raises: B's call returns \<open>True\<close> and \<open>reservas\<close> holds two
    rows for ticket 3.
  \<^item> A holds ticket 0 and B reserves it, no call failing: B's call returns \<open>True\<close> and a
    second row for ticket 0 is appended.
  \<^item> The seller named 007 holds ticket 3 and B reserves it: the call is rejected, but
    the holder it names is 7, the number \<open>get_all_records\<close> reads the name back as.
\<close>

theorem reservar_numero_acepta_ocupado:
  "reservar_numero 3 ''B'' 5 2 2
      (hojas [ven 3 (Texto ''X'') (Texto ''555'') (Texto ''A'') 0 1] [] [True]) =
     ((True, Numero_reservado_exitosamente),
      hojas_con [ven 3 (Texto ''X'') (Texto ''555'') (Texto ''A'') 0 1]
        [res 3 ''B'' 2 300000002] [] [] [Append_reservas (res 3 ''B'' 2 300000002)])
   \<and> fst (ejecutar (Reservar 3 ''B'' 5 1 1)
        (ejecutar_todas [Reservar 3 ''A'' 5 0 0]
           (hojas [] [] [False, False, False, False, False, False, True]))) =
     Tupla True Numero_reservado_exitosamente
   \<and> ejecutar_todas [Reservar 3 ''A'' 5 0 0, Reservar 3 ''B'' 5 1 1]
        (hojas [] [] [False, False, False, False, False, False, True]) =
     hojas_con [] [res 3 ''A'' 0 300000000, res 3 ''B'' 1 300000001] [] []
       [Append_reservas (res 3 ''A'' 0 300000000), Append_reservas (res 3 ''B'' 1 300000001)]
   \<and> reservar_numero 0 ''B'' 5 1 1 (hojas [] [res 0 ''A'' 0 300000000] []) =
     ((True, Numero_reservado_exitosamente),
      hojas_con [] [res 0 ''A'' 0 300000000, res 0 ''B'' 1 300000001] [] []
        [Append_reservas (res 0 ''B'' 1 300000001)])
   \<and> reservar_numero 3 ''B'' 5 1 1 (hojas [] [res 3 ''007'' 0 300000000] []) =
     ((False, Numero_reservado_por ''7''), hojas [] [res 3 ''007'' 0 300000000] [])"
  by (simp add: evaluar)

subsection \<open>C3: what Confirm requires\<close>

text \<open>
  C3 as stated: Confirm succeeds only when a live reservation of the number exists and
  is owned by the caller; with no live reservation, one that has already expired
  included, it fails with NotReserved; with a live reservation owned by a different
  seller it fails with NotOwner. The code does each of the following instead.

  \<^item> Ticket 3 is held by A until instant 100 and A confirms at instant 200. The reap
    inside the call reads the expired row, but its \<open>delete_rows\<close> raises; the exception
    becomes the warning "Error limpiando reservas", the row is read again as a
    reservation, and the call returns \<open>True\<close> and appends the sale. The same happens
    when the read of the reap raises.
  \<^item> A confirms at instant 100, the very instant of the expiry, when a reservation whose
    expiry is less than or equal to now counts as expired: the test of the reap is
    \<open>now > expira\<close>, the row stays, and the call returns \<open>True\<close>.
  \<^item> Ticket 3 is held by B until 300; A confirms at 100 and the read of \<open>reservas\<close>
    after the reap raises: the answer is "Numero no esta reservado", not NotOwner.
  \<^item> Ticket 0 is held by B until 300 and A confirms it at 100: the comprehension skips
    a row whose number is 0, and the answer is "Numero no esta reservado".
  \<^item> B reserves ticket 3; A reserves it too while the read of \<open>reservas\<close> raises, which
    leaves two rows for ticket 3. A then confirms: the mapping keeps the last row of
    a number, A's, and the call returns \<open>True\<close> although B holds a live reservation.
\<close>

theorem confirmar_venta_reserva_viva_counterexample:
  "expirada 200 (res 3 ''A'' 0 100)
   \<and> confirmar_venta 3 ''X'' ''555'' ''A'' 200 1000000
        (hojas [] [res 3 ''A'' 0 100] [False, True]) =
       ((True, Venta_confirmada_exitosamente),
        hojas_con [ven 3 (Texto ''X'') (Texto ''555'') (Texto ''A'') 1000000 1000000] [] []
          [Error_limpiando_reservas APIError]
          [Append_ventas (ven 3 (Texto ''X'') (Texto ''555'') (Texto ''A'') 1000000 1000000),
           Delete_reservas 2])
   \<and> confirmar_venta 3 ''X'' ''555'' ''A'' 200 1000000
        (hojas [] [res 3 ''A'' 0 100] [True]) =
       ((True, Venta_confirmada_exitosamente),
        hojas_con [ven 3 (Texto ''X'') (Texto ''555'') (Texto ''A'') 1000000 1000000] [] []
          [Error_limpiando_reservas APIError]
          [Append_ventas (ven 3 (Texto ''X'') (Texto ''555'') (Texto ''A'') 1000000 1000000),
           Delete_reservas 2])
   \<and> confirmar_venta 3 ''X'' ''555'' ''A'' 100 1000000 (hojas [] [res 3 ''A'' 0 100] []) =
       ((True, Venta_confirmada_exitosamente),
        hojas_con [ven 3 (Texto ''X'') (Texto ''555'') (Texto ''A'') 1000000 1000000] [] [] []
          [Append_ventas (ven 3 (Texto ''X'') (Texto ''555'') (Texto ''A'') 1000000 1000000),
           Delete_reservas 2])
   \<and> confirmar_venta 3 ''X'' ''555'' ''A'' 100 1000000
        (hojas [] [res 3 ''B'' 0 300] [False, True]) =
       ((False, Numero_no_esta_reservado), hojas [] [res 3 ''B'' 0 300] [])
   \<and> confirmar_venta 0 ''X'' ''555'' ''A'' 100 1000000 (hojas [] [res 0 ''B'' 0 300] []) =
       ((False, Numero_no_esta_reservado), hojas [] [res 0 ''B'' 0 300] [])
   \<and> ejecutar_todas [Reservar 3 ''B'' 5 0 0, Reservar 3 ''A'' 5 1 1]
        (hojas [] [] [False, False, False, False, False, False, True]) =
       hojas_con [] [res 3 ''B'' 0 300000000, res 3 ''A'' 1 300000001] [] []
         [Append_reservas (res 3 ''B'' 0 300000000), Append_reservas (res 3 ''A'' 1 300000001)]
   \<and> confirmar_venta 3 ''X'' ''555'' ''A'' 2 1000000
        (hojas [] [res 3 ''B'' 0 300000000, res 3 ''A'' 1 300000001] []) =
       ((True, Venta_confirmada_exitosamente),
        hojas_con [ven 3 (Texto ''X'') (Texto ''555'') (Texto ''A'') 1000000 1000000]
          [res 3 ''B'' 0 300000000] [] []
          [Append_ventas (ven 3 (Texto ''X'') (Texto ''555'') (Texto ''A'') 1000000 1000000),
           Delete_reservas 3])"
  by (simp add: evaluar)

text \<open>
  C3, amended. Whatever calls fail:

  \<^item> \<open>confirmar_venta\<close> returns \<open>True\<close> only if the number is not 0 and \<open>reservas\<close> held,
    when the call started, a row of that number and that seller; and if the reap of
    the call showed no warning, that row had not expired by the test of the code, which
    is \<open>now \<le> expira_en\<close> (a row whose expiry is the instant of the call still counts);
  \<^item> a call that returns \<open>False\<close> leaves \<open>ventas\<close> as it was and writes nothing but the
    deletions of the reap;
  \<^item> when \<open>reservas\<close> has no row of the number, the answer is "Numero no esta reservado";
    so it is when every row of the number has its expiry strictly before the instant
    of the reap and the reap showed no warning;
  \<^item> when the number is not 0, the last row of that number in \<open>reservas\<close> has not expired
    (\<open>now \<le> expira_en\<close>) and is held by another seller, and the read of \<open>reservas\<close> after
    the reap returns, the answer is "No tienes la reserva de este numero".
\<close>

theorem confirmar_venta_exige_reserva:
  assumes "confirmar_venta num compr tel vend now_l now w = ((ok, m), w')"
  shows "(ok \<longrightarrow> num \<noteq> 0
           \<and> (\<exists>r\<in>set (reservas_worksheet w). numero r = num \<and> vendedor r = Texto vend
                \<and> (avisos (limpiar_reservas_expiradas now_l w) = avisos w \<longrightarrow>
                     now_l \<le> expira_en r)))
    \<and> (\<not> ok \<longrightarrow> ventas_worksheet w' = ventas_worksheet w
           \<and> (\<exists>n. bitacora w' = bitacora w @ map Delete_reservas
                 (take n (rev (rows_to_delete now_l (reservas_worksheet w))))))
    \<and> (num \<notin> numero ` set (reservas_worksheet w) \<longrightarrow>
          \<not> ok \<and> m = Numero_no_esta_reservado)
    \<and> ((\<forall>r\<in>set (reservas_worksheet w). numero r = num \<longrightarrow> expira_en r < now_l)
          \<and> avisos (limpiar_reservas_expiradas now_l w) = avisos w \<longrightarrow>
          \<not> ok \<and> m = Numero_no_esta_reservado)
    \<and> (reservas_worksheet w = ys @ r # zs \<and> numero r = num \<and> num \<noteq> 0
          \<and> num \<notin> numero ` set zs \<and> now_l \<le> expira_en r \<and> vendedor r \<noteq> Texto vend
          \<and> \<not> falla (limpiar_reservas_expiradas now_l w) \<longrightarrow>
          \<not> ok \<and> m = No_tienes_la_reserva_de_este_numero)"
proof -
  let ?wl = "limpiar_reservas_expiradas now_l w"
  have 1: "num \<noteq> 0
      \<and> (\<exists>r\<in>set (reservas_worksheet w). numero r = num \<and> vendedor r = Texto vend
           \<and> (avisos ?wl = avisos w \<longrightarrow> now_l \<le> expira_en r))" if ok
  proof -
    from assms that obtain r where
      r: "fst (obtener_numeros_reservados now_l w) num = Some r" "vendedor r = Texto vend"
      by (auto simp: confirmar_casos split: option.splits if_splits)
    note s = reservados_Some [OF r(1)]
    have rin: "r \<in> set (reservas_worksheet ?wl)"
      by (rule reservados_Some_Texto [OF r])
    then have "r \<in> set (reservas_worksheet w)"
      using limpiar_subconjunto [of now_l w] by auto
    moreover have "now_l \<le> expira_en r" if "avisos ?wl = avisos w"
      using limpiar_sin_aviso(1) [OF that] rin by (auto simp: expirada_def)
    ultimately show ?thesis using s(2,3) r(2) by auto
  qed
  have 2: "ventas_worksheet w' = ventas_worksheet w
      \<and> (\<exists>n. bitacora w' = bitacora w @ map Delete_reservas
            (take n (rev (rows_to_delete now_l (reservas_worksheet w)))))" if "\<not> ok"
  proof -
    from assms that have "w' = avanza ?wl \<or> w' = avanza (avanza ?wl)"
      by (auto simp: confirmar_casos snd_obtener_numeros_reservados
          split: option.splits if_splits)
    then have "ventas_worksheet w' = ventas_worksheet w" "bitacora w' = bitacora ?wl"
      by (auto simp: avanza_def ventas_limpiar)
    then show ?thesis using bitacora_limpiar_prefijo [of now_l w] by simp
  qed
  have n: "\<not> ok \<and> m = Numero_no_esta_reservado"
    if "num \<notin> numero ` set (reservas_worksheet ?wl)"
  proof -
    from that have "fst (obtener_numeros_reservados now_l w) num = None"
      by (simp add: reservados_None)
    with assms show ?thesis by (simp add: confirmar_casos)
  qed
  have 3: "\<not> ok \<and> m = Numero_no_esta_reservado"
    if "num \<notin> numero ` set (reservas_worksheet w)"
    using that limpiar_subconjunto [of now_l w] by (intro n) auto
  have 4: "\<not> ok \<and> m = Numero_no_esta_reservado"
    if "\<forall>r\<in>set (reservas_worksheet w). numero r = num \<longrightarrow> expira_en r < now_l"
      and "avisos ?wl = avisos w"
    using that(1) limpiar_sin_aviso(1) [OF that(2)] by (intro n) (auto simp: expirada_def)
  have 5: "\<not> ok \<and> m = No_tienes_la_reserva_de_este_numero"
    if "reservas_worksheet w = ys @ r # zs" and "numero r = num" and "num \<noteq> 0"
      and "num \<notin> numero ` set zs" and "now_l \<le> expira_en r" and "vendedor r \<noteq> Texto vend"
      and "\<not> falla ?wl"
  proof -
    have "\<not> expirada now_l r" using that(5) by (simp add: expirada_def)
    from reservados_ultimo [OF that(1) this that(2,3,4,7)]
    have "fst (obtener_numeros_reservados now_l w) num = Some (leer_reserva (lee_numero w) r)" .
    moreover have "vendedor (leer_reserva (lee_numero w) r) \<noteq> Texto vend"
      using that(6) by (simp add: leer_reserva_Texto)
    ultimately show ?thesis using assms by (simp add: confirmar_casos)
  qed
  from 1 2 3 4 5 show ?thesis by blast
qed

theorem confirmar_venta_exige_reserva_witness:
  "confirmar_venta 3 ''X'' ''555'' ''A'' 100 1000000 (hojas [] [res 3 ''A'' 0 300] []) =
     ((True, Venta_confirmada_exitosamente),
      hojas_con [ven 3 (Texto ''X'') (Texto ''555'') (Texto ''A'') 1000000 1000000] [] [] []
        [Append_ventas (ven 3 (Texto ''X'') (Texto ''555'') (Texto ''A'') 1000000 1000000),
         Delete_reservas 2])
   \<and> (\<exists>r\<in>set [res 3 ''A'' 0 300]. numero r = 3 \<and> vendedor r = Texto ''A''
         \<and> 100 \<le> expira_en r)
   \<and> confirmar_venta 3 ''X'' ''555'' ''A'' 100 1000000 (hojas [] [res 3 ''A'' 0 50] []) =
     ((False, Numero_no_esta_reservado), hojas_con [] [] [] [] [Delete_reservas 2])
   \<and> confirmar_venta 3 ''X'' ''555'' ''A'' 100 1000000 (hojas [] [res 4 ''A'' 0 300] []) =
     ((False, Numero_no_esta_reservado), hojas [] [res 4 ''A'' 0 300] [])
   \<and> confirmar_venta 3 ''X'' ''555'' ''A'' 100 1000000
        (hojas [] [res 3 ''A'' 0 300, res 3 ''B'' 0 300] []) =
     ((False, No_tienes_la_reserva_de_este_numero),
      hojas [] [res 3 ''A'' 0 300, res 3 ''B'' 0 300] [])"
proof -
  let ?s = "ven 3 (Texto ''X'') (Texto ''555'') (Texto ''A'') 1000000 1000000"
  let ?w1 = "hojas [] [res 3 ''A'' 0 300] []"
  let ?w2 = "hojas [] [res 3 ''A'' 0 50] []"
  let ?w3 = "hojas [] [res 4 ''A'' 0 300] []"
  let ?w4 = "hojas [] [res 3 ''A'' 0 300, res 3 ''B'' 0 300] []"
  have 1: "confirmar_venta 3 ''X'' ''555'' ''A'' 100 1000000 ?w1 =
      ((True, Venta_confirmada_exitosamente),
       hojas_con [?s] [] [] [] [Append_ventas ?s, Delete_reservas 2])"
    by (simp add: evaluar)
  have a1: "avisos (limpiar_reservas_expiradas 100 ?w1) = avisos ?w1"
    by (simp add: evaluar)
  from confirmar_venta_exige_reserva [OF 1]
  have "\<exists>r\<in>set (reservas_worksheet ?w1). numero r = 3 \<and> vendedor r = Texto ''A''
      \<and> (avisos (limpiar_reservas_expiradas 100 ?w1) = avisos ?w1 \<longrightarrow> 100 \<le> expira_en r)"
    by blast
  with a1 have c1: "\<exists>r\<in>set [res 3 ''A'' 0 300]. numero r = 3 \<and> vendedor r = Texto ''A''
      \<and> 100 \<le> expira_en r"
    by simp
  obtain ok2 m2 w2 where
    2: "confirmar_venta 3 ''X'' ''555'' ''A'' 100 1000000 ?w2 = ((ok2, m2), w2)"
    by (metis surj_pair)
  have h2: "(\<forall>r\<in>set (reservas_worksheet ?w2). numero r = 3 \<longrightarrow> expira_en r < 100)
      \<and> avisos (limpiar_reservas_expiradas 100 ?w2) = avisos ?w2"
    by (simp add: evaluar)
  from confirmar_venta_exige_reserva [OF 2] h2
  have "\<not> ok2 \<and> m2 = Numero_no_esta_reservado" by blast
  with 2 have c2: "fst (confirmar_venta 3 ''X'' ''555'' ''A'' 100 1000000 ?w2) =
      (False, Numero_no_esta_reservado)"
    by simp
  have s2: "snd (confirmar_venta 3 ''X'' ''555'' ''A'' 100 1000000 ?w2) =
      hojas_con [] [] [] [] [Delete_reservas 2]"
    by (simp add: evaluar)
  obtain ok3 m3 w3 where
    3: "confirmar_venta 3 ''X'' ''555'' ''A'' 100 1000000 ?w3 = ((ok3, m3), w3)"
    by (metis surj_pair)
  have h3: "3 \<notin> numero ` set (reservas_worksheet ?w3)" by simp
  from confirmar_venta_exige_reserva [OF 3] h3
  have "\<not> ok3 \<and> m3 = Numero_no_esta_reservado" by blast
  with 3 have c3: "fst (confirmar_venta 3 ''X'' ''555'' ''A'' 100 1000000 ?w3) =
      (False, Numero_no_esta_reservado)"
    by simp
  have s3: "snd (confirmar_venta 3 ''X'' ''555'' ''A'' 100 1000000 ?w3) = ?w3"
    by (simp add: evaluar)
  obtain ok4 m4 w4 where
    4: "confirmar_venta 3 ''X'' ''555'' ''A'' 100 1000000 ?w4 = ((ok4, m4), w4)"
    by (metis surj_pair)
  have h4: "reservas_worksheet ?w4 = [res 3 ''A'' 0 300] @ res 3 ''B'' 0 300 # []
      \<and> numero (res 3 ''B'' 0 300) = 3 \<and> (3::int) \<noteq> 0 \<and> 3 \<notin> numero ` set []
      \<and> 100 \<le> expira_en (res 3 ''B'' 0 300) \<and> vendedor (res 3 ''B'' 0 300) \<noteq> Texto ''A''
      \<and> \<not> falla (limpiar_reservas_expiradas 100 ?w4)"
    by (simp add: evaluar)
  from confirmar_venta_exige_reserva
    [OF 4, where ys = "[res 3 ''A'' 0 300]" and r = "res 3 ''B'' 0 300" and zs = "[]"] h4
  have "\<not> ok4 \<and> m4 = No_tienes_la_reserva_de_este_numero" by blast
  with 4 have c4: "fst (confirmar_venta 3 ''X'' ''555'' ''A'' 100 1000000 ?w4) =
      (False, No_tienes_la_reserva_de_este_numero)"
    by simp
  have s4: "snd (confirmar_venta 3 ''X'' ''555'' ''A'' 100 1000000 ?w4) = ?w4"
    by (simp add: evaluar)
  from 1 c1 c2 s2 c3 s3 c4 s4 show ?thesis
    by (simp add: prod_eq_iff)
qed

subsection \<open>C4: the sale is appended before the reservation is deleted\<close>

text \<open>
  C4: on a successful \<open>confirmar_venta\<close> the sale is appended to \<open>ventas\<close> before the
  reservation is deleted from \<open>reservas\<close>, so that between the two writes the number has
  its sale and is painted as sold, and \<open>confirmar_venta\<close> never deletes a sale. In detail,
  let \<open>confirmar_venta\<close> return \<open>True\<close>. Write \<open>xs\<close> for the rows of \<open>reservas\<close> that the
  reap at the start of the call left, and \<open>s\<close> for the sale row. Whatever calls failed:

  \<^item> before the append only the reap wrote, and it only deleted rows that had expired:
    the write history is that of the start followed by \<open>delete_rows\<close> calls from the
    reap's list, and the unexpired rows of \<open>reservas\<close> are those of the start;
  \<^item> some position \<open>i\<close> of \<open>xs\<close> holds a row of this number and seller, and no earlier
    position does: the row \<open>cancelar_reserva\<close> looks for;
  \<^item> right after \<open>append_row\<close> the sale is the last row of \<open>ventas\<close> while \<open>reservas\<close> is
    still \<open>xs\<close>, the row at \<open>i\<close> included: one write, \<open>Append_ventas s\<close>, was added;
  \<^item> the call ends in one of two ways. Either \<open>reservas\<close> is \<open>xs\<close> without position \<open>i\<close>,
    the writes since the reap are \<open>Append_ventas s\<close> and then \<open>Delete_reservas (i + 2)\<close>, in
    that order, and no warning is shown; or the read or the delete of
    \<open>cancelar_reserva\<close> raised, \<open>reservas\<close> is still \<open>xs\<close>, the only write is
    \<open>Append_ventas s\<close> and the warning "Error cancelando reserva" is shown;
  \<^item> in both, \<open>ventas\<close> ends as the rows of the start followed by \<open>s\<close>: no sale was deleted;
  \<^item> from the append on, every state of the call has these rows of \<open>ventas\<close>, and a page
    that reads them paints the number as sold.

  A call that returns \<open>False\<close> leaves \<open>ventas\<close> as it was.
\<close>

theorem confirmar_venta_orden:
  assumes "confirmar_venta num compr tel vend now_l now w = ((ok, m), w')"
  shows "(\<not> ok \<longrightarrow> ventas_worksheet w' = ventas_worksheet w)
    \<and> (ok \<longrightarrow>
        (\<exists>n. bitacora (limpiar_reservas_expiradas now_l w) =
               bitacora w @ map Delete_reservas
                 (take n (rev (rows_to_delete now_l (reservas_worksheet w)))))
      \<and> filter (\<lambda>r. \<not> expirada now_l r)
           (reservas_worksheet (limpiar_reservas_expiradas now_l w)) =
         filter (\<lambda>r. \<not> expirada now_l r) (reservas_worksheet w)
      \<and> ventas_worksheet
           (snd (append_row_ventas (fila_venta num compr tel vend now)
              (avanza (limpiar_reservas_expiradas now_l w)))) =
         ventas_worksheet w @ [fila_venta num compr tel vend now]
      \<and> reservas_worksheet
           (snd (append_row_ventas (fila_venta num compr tel vend now)
              (avanza (limpiar_reservas_expiradas now_l w)))) =
         reservas_worksheet (limpiar_reservas_expiradas now_l w)
      \<and> bitacora
           (snd (append_row_ventas (fila_venta num compr tel vend now)
              (avanza (limpiar_reservas_expiradas now_l w)))) =
         bitacora (limpiar_reservas_expiradas now_l w) @
           [Append_ventas (fila_venta num compr tel vend now)]
      \<and> w' = cancelar_reserva num vend
           (snd (append_row_ventas (fila_venta num compr tel vend now)
              (avanza (limpiar_reservas_expiradas now_l w))))
      \<and> ventas_worksheet w' = ventas_worksheet w @ [fila_venta num compr tel vend now]
      \<and> (\<exists>i<length (reservas_worksheet (limpiar_reservas_expiradas now_l w)).
           numero (reservas_worksheet (limpiar_reservas_expiradas now_l w) ! i) = num
         \<and> vendedor (reservas_worksheet (limpiar_reservas_expiradas now_l w) ! i) = Texto vend
         \<and> (\<forall>k<i. \<not> (numero (reservas_worksheet (limpiar_reservas_expiradas now_l w) ! k) = num
               \<and> vendedor (reservas_worksheet (limpiar_reservas_expiradas now_l w) ! k) =
                   Texto vend))
         \<and> (reservas_worksheet w' =
              take i (reservas_worksheet (limpiar_reservas_expiradas now_l w)) @
              drop (Suc i) (reservas_worksheet (limpiar_reservas_expiradas now_l w))
            \<and> bitacora w' =
                bitacora (limpiar_reservas_expiradas now_l w) @
                  [Append_ventas (fila_venta num compr tel vend now), Delete_reservas (i + 2)]
            \<and> avisos w' = avisos (limpiar_reservas_expiradas now_l w)
            \<or> reservas_worksheet w' = reservas_worksheet (limpiar_reservas_expiradas now_l w)
            \<and> bitacora w' =
                bitacora (limpiar_reservas_expiradas now_l w) @
                  [Append_ventas (fila_venta num compr tel vend now)]
            \<and> avisos w' =
                avisos (limpiar_reservas_expiradas now_l w) @
                  [Error_cancelando_reserva APIError]))
      \<and> (\<forall>x t. ventas_worksheet x = ventas_worksheet w @ [fila_venta num compr tel vend now]
             \<and> \<not> falla x \<longrightarrow>
             (\<exists>info. fst (mostrar_grilla_numeros t x) num = Vendido info)))"
proof (cases ok)
  case False
  with assms show ?thesis
    by (auto simp: confirmar_casos snd_obtener_numeros_reservados avanza_def ventas_limpiar
        split: option.splits if_splits)
next
  case True
  let ?wl = "limpiar_reservas_expiradas now_l w"
  let ?s = "fila_venta num compr tel vend now"
  let ?w2 = "snd (append_row_ventas ?s (avanza ?wl))"
  from assms True obtain r where
    r: "fst (obtener_numeros_reservados now_l w) num = Some r" "vendedor r = Texto vend"
    and nf: "\<not> falla (avanza ?wl)" and w': "w' = cancelar_reserva num vend ?w2"
    by (auto simp: confirmar_casos snd_obtener_numeros_reservados
        split: option.splits if_splits)
  note s = reservados_Some [OF r(1)]
  have rin: "r \<in> set (reservas_worksheet ?wl)"
    by (rule reservados_Some_Texto [OF r])
  from s(4) r(2) have p: "lee_numero w vend = None"
    by (auto simp: leer_reserva_Texto)
  have w2: "ventas_worksheet ?w2 = ventas_worksheet w @ [?s]"
    "reservas_worksheet ?w2 = reservas_worksheet ?wl"
    "bitacora ?w2 = bitacora ?wl @ [Append_ventas ?s]"
    "avisos ?w2 = avisos ?wl" "lee_numero ?w2 = lee_numero w"
    using nf by (simp_all add: append_row_ventas_def avanza_def ventas_limpiar lee_numero_limpiar)
  have v: "ventas_worksheet w' = ventas_worksheet w @ [?s]"
    using w' w2(1) by (simp add: ventas_cancelar)
  have "r \<in> set (reservas_worksheet ?w2)" "lee_numero ?w2 vend = None"
    using rin p w2 by simp_all
  from cancelar_resultado [OF this(1) s(3) r(2) this(2)]
  have c: "\<exists>i<length (reservas_worksheet ?wl).
           numero (reservas_worksheet ?wl ! i) = num
         \<and> vendedor (reservas_worksheet ?wl ! i) = Texto vend
         \<and> (\<forall>k<i. \<not> (numero (reservas_worksheet ?wl ! k) = num
               \<and> vendedor (reservas_worksheet ?wl ! k) = Texto vend))
         \<and> (reservas_worksheet w' =
              take i (reservas_worksheet ?wl) @ drop (Suc i) (reservas_worksheet ?wl)
            \<and> bitacora w' = bitacora ?wl @ [Append_ventas ?s, Delete_reservas (i + 2)]
            \<and> avisos w' = avisos ?wl
            \<or> reservas_worksheet w' = reservas_worksheet ?wl
            \<and> bitacora w' = bitacora ?wl @ [Append_ventas ?s]
            \<and> avisos w' = avisos ?wl @ [Error_cancelando_reserva APIError])"
    unfolding w2 w' [symmetric] by (auto split: if_splits)
  have g: "\<forall>x t. ventas_worksheet x = ventas_worksheet w @ [?s] \<and> \<not> falla x \<longrightarrow>
      (\<exists>info. fst (mostrar_grilla_numeros t x) num = Vendido info)"
  proof (intro allI impI)
    fix x t
    assume a: "ventas_worksheet x = ventas_worksheet w @ [?s] \<and> \<not> falla x"
    then have "num \<in> numero_v ` set (ventas_worksheet x)"
      by (simp add: fila_venta_def)
    with a s(2) show "\<exists>info. fst (mostrar_grilla_numeros t x) num = Vendido info"
      by (intro grilla_vendido) simp_all
  qed
  from bitacora_limpiar_prefijo [of now_l w] limpiar_conserva_vigentes [of now_l w]
    w2(1,2,3) w' v c g True
  show ?thesis by simp
qed

theorem confirmar_venta_orden_witness:
  "confirmar_venta 3 ''X'' ''555'' ''A'' 100 1000000
      (hojas [] [res 2 ''B'' 0 50, res 3 ''A'' 0 300, res 4 ''C'' 0 300] []) =
     ((True, Venta_confirmada_exitosamente),
      hojas_con [ven 3 (Texto ''X'') (Texto ''555'') (Texto ''A'') 1000000 1000000]
        [res 4 ''C'' 0 300] [] []
        [Delete_reservas 2,
         Append_ventas (ven 3 (Texto ''X'') (Texto ''555'') (Texto ''A'') 1000000 1000000),
         Delete_reservas 2])
   \<and> snd (append_row_ventas (fila_venta 3 ''X'' ''555'' ''A'' 1000000)
        (avanza (limpiar_reservas_expiradas 100
           (hojas [] [res 2 ''B'' 0 50, res 3 ''A'' 0 300, res 4 ''C'' 0 300] [])))) =
      hojas_con [ven 3 (Texto ''X'') (Texto ''555'') (Texto ''A'') 1000000 1000000]
        [res 3 ''A'' 0 300, res 4 ''C'' 0 300] [] []
        [Delete_reservas 2,
         Append_ventas (ven 3 (Texto ''X'') (Texto ''555'') (Texto ''A'') 1000000 1000000)]
   \<and> (\<exists>info. fst (mostrar_grilla_numeros 100
         (hojas_con [ven 3 (Texto ''X'') (Texto ''555'') (Texto ''A'') 1000000 1000000]
            [res 3 ''A'' 0 300, res 4 ''C'' 0 300] [] []
            [Delete_reservas 2,
             Append_ventas
               (ven 3 (Texto ''X'') (Texto ''555'') (Texto ''A'') 1000000 1000000)])) 3 =
        Vendido info)"
proof -
  let ?w = "hojas [] [res 2 ''B'' 0 50, res 3 ''A'' 0 300, res 4 ''C'' 0 300] []"
  let ?s = "ven 3 (Texto ''X'') (Texto ''555'') (Texto ''A'') 1000000 1000000"
  let ?w2 = "hojas_con [?s] [res 3 ''A'' 0 300, res 4 ''C'' 0 300] [] []
    [Delete_reservas 2, Append_ventas ?s]"
  let ?w' = "hojas_con [?s] [res 4 ''C'' 0 300] [] []
    [Delete_reservas 2, Append_ventas ?s, Delete_reservas 2]"
  have 1: "confirmar_venta 3 ''X'' ''555'' ''A'' 100 1000000 ?w =
      ((True, Venta_confirmada_exitosamente), ?w')"
    by (simp add: evaluar)
  have 2: "snd (append_row_ventas (fila_venta 3 ''X'' ''555'' ''A'' 1000000)
      (avanza (limpiar_reservas_expiradas 100 ?w))) = ?w2"
    by (simp add: evaluar)
  have 3: "ventas_worksheet ?w2 =
      ventas_worksheet ?w @ [fila_venta 3 ''X'' ''555'' ''A'' 1000000] \<and> \<not> falla ?w2"
    by (simp add: fila_venta_def falla_def)
  from confirmar_venta_orden [OF 1]
  have "\<forall>x t. ventas_worksheet x =
        ventas_worksheet ?w @ [fila_venta 3 ''X'' ''555'' ''A'' 1000000] \<and> \<not> falla x \<longrightarrow>
      (\<exists>info. fst (mostrar_grilla_numeros t x) 3 = Vendido info)"
    by blast
  with 3 have "\<exists>info. fst (mostrar_grilla_numeros 100 ?w2) 3 = Vendido info"
    by blast
  with 1 2 show ?thesis by simp
qed

subsection \<open>C5: reserving again a number one already holds\<close>

text \<open>
  C5 as stated: a second Reserve(t, A) by the seller who holds a live reservation of t
  succeeds, the existing reservation stands and no second record is appended. The code
  does each of the following instead.

  \<^item> A holds ticket 3 and reserves it again: \<open>reservar_numero\<close> does not look at who holds
    the row and returns \<open>False\<close> with "Numero reservado por A".
  \<^item> The same call while the read of \<open>reservas\<close> raises: the mapping is read as empty,
    the call returns \<open>True\<close>, and a second row for ticket 3 is appended.
  \<^item> A holds ticket 0 and reserves it again: the comprehension skips a row whose number
    is 0, the call returns \<open>True\<close>, and a second row for ticket 0 is appended.
  \<^item> The seller named 007 holds ticket 3 and reserves it again: \<open>get_all_records\<close> reads
    the name back as the number 7, and the message is "Numero reservado por 7".
\<close>

theorem reservar_numero_propia_counterexample:
  "reservar_numero 3 ''A'' 5 1 1 (hojas [] [res 3 ''A'' 0 300000000] []) =
     ((False, Numero_reservado_por ''A''), hojas [] [res 3 ''A'' 0 300000000] [])
   \<and> reservar_numero 3 ''A'' 5 1 1 (hojas [] [res 3 ''A'' 0 300000000] [False, False, True]) =
     ((True, Numero_reservado_exitosamente),
      hojas_con [] [res 3 ''A'' 0 300000000, res 3 ''A'' 1 300000001] [] []
        [Append_reservas (res 3 ''A'' 1 300000001)])
   \<and> reservar_numero 0 ''A'' 5 1 1 (hojas [] [res 0 ''A'' 0 300000000] []) =
     ((True, Numero_reservado_exitosamente),
      hojas_con [] [res 0 ''A'' 0 300000000, res 0 ''A'' 1 300000001] [] []
        [Append_reservas (res 0 ''A'' 1 300000001)])
   \<and> reservar_numero 3 ''007'' 5 1 1 (hojas [] [res 3 ''007'' 0 300000000] []) =
     ((False, Numero_reservado_por ''7''), hojas [] [res 3 ''007'' 0 300000000] [])"
  by (simp add: evaluar)

text \<open>
  C5, amended: let \<open>reservas\<close> hold a row \<open>r\<close> of ticket \<open>t\<close>, not 0, held by A, whose expiry
  is not before the instant of the reap (\<open>now \<le> expira_en\<close>), and let the read of
  \<open>reservas\<close> after the reap return inside \<open>reservar_numero(t, A)\<close>. Then, whatever else
  fails, the call returns \<open>False\<close>: with "Numero ya vendido" when the read of \<open>ventas\<close>
  returned and shows a sale of \<open>t\<close>, and otherwise with "Numero reservado por h", \<open>h\<close> being
  the holder of a row of \<open>t\<close> in \<open>reservas\<close> as \<open>get_all_records\<close> reads it back (A's own
  name as read back when every row of \<open>t\<close> is A's). The row \<open>r\<close> stays, the rows of
  \<open>reservas\<close> that have not expired are those of the start, \<open>ventas\<close> is as it was, and the
  only writes are deletions of the reap: no second row is appended.
\<close>

theorem reservar_numero_propia:
  assumes "reservar_numero num vend minutos now_l now w = ((ok, m), w')"
    and "r \<in> set (reservas_worksheet w)" and "numero r = num" and "vendedor r = Texto vend"
    and "now_l \<le> expira_en r" and "num \<noteq> 0"
    and "\<not> falla (limpiar_reservas_expiradas now_l (avanza w))"
  shows "\<not> ok
    \<and> (if \<not> falla w \<and> num \<in> numero_v ` set (ventas_worksheet w) then m = Numero_ya_vendido
       else \<exists>r'\<in>set (reservas_worksheet w). numero r' = num
              \<and> m = Numero_reservado_por
                    (str_celda (numericise (lee_numero w) (vendedor r'))))
    \<and> ((falla w \<or> num \<notin> numero_v ` set (ventas_worksheet w))
         \<and> (\<forall>r'\<in>set (reservas_worksheet w). numero r' = num \<longrightarrow> vendedor r' = Texto vend)
         \<longrightarrow> m = Numero_reservado_por (str_celda (numericise (lee_numero w) (Texto vend))))
    \<and> r \<in> set (reservas_worksheet w')
    \<and> filter (\<lambda>r. \<not> expirada now_l r) (reservas_worksheet w') =
       filter (\<lambda>r. \<not> expirada now_l r) (reservas_worksheet w)
    \<and> ventas_worksheet w' = ventas_worksheet w
    \<and> (\<exists>n. bitacora w' = bitacora w @ map Delete_reservas
            (take n (rev (rows_to_delete now_l (reservas_worksheet w)))))"
proof -
  let ?wl = "limpiar_reservas_expiradas now_l (avanza w)"
  have a: "reservas_worksheet (avanza w) = reservas_worksheet w"
    "ventas_worksheet (avanza w) = ventas_worksheet w" "bitacora (avanza w) = bitacora w"
    "lee_numero (avanza w) = lee_numero w"
    by (simp_all add: avanza_def)
  have ne: "\<not> expirada now_l r" using assms(5) by (simp add: expirada_def)
  have rin: "r \<in> set (reservas_worksheet ?wl)"
    using assms(2) ne by (intro limpiar_vigente_queda) (simp_all add: a)
  then have "fst (obtener_numeros_reservados now_l (avanza w)) num \<noteq> None"
    using assms(3,6,7) by (auto simp: reservados_None)
  then obtain r1 where
    r1: "fst (obtener_numeros_reservados now_l (avanza w)) num = Some r1" by blast
  from reservados_Some(3,4) [OF r1] obtain r0 where
    r0: "r0 \<in> set (reservas_worksheet ?wl)" "r1 = leer_reserva (lee_numero w) r0"
      "numero r1 = num"
    by (auto simp: a)
  have r0': "r0 \<in> set (reservas_worksheet w)" "numero r0 = num"
    using r0 limpiar_subconjunto [of now_l "avanza w"] by (auto simp: a leer_reserva_campos)
  have v: "fst (obtener_numeros_vendidos w) num \<noteq> None \<longleftrightarrow>
      \<not> falla w \<and> num \<in> numero_v ` set (ventas_worksheet w)"
    using assms(6) by (simp add: vendidos_None)
  have w': "w' = avanza ?wl" and ok: "\<not> ok"
    and m: "m = (if \<not> falla w \<and> num \<in> numero_v ` set (ventas_worksheet w)
                 then Numero_ya_vendido
                 else Numero_reservado_por (str_celda (numericise (lee_numero w) (vendedor r0))))"
    using assms(1) r1 r0(2) v
    by (auto simp: reservar_casos snd_obtener_numeros_reservados leer_reserva_campos
        split: if_splits)
  have 1: "if \<not> falla w \<and> num \<in> numero_v ` set (ventas_worksheet w) then m = Numero_ya_vendido
       else \<exists>r'\<in>set (reservas_worksheet w). numero r' = num
              \<and> m = Numero_reservado_por
                    (str_celda (numericise (lee_numero w) (vendedor r')))"
    using m r0' by auto
  have 2: "m = Numero_reservado_por (str_celda (numericise (lee_numero w) (Texto vend)))"
    if "falla w \<or> num \<notin> numero_v ` set (ventas_worksheet w)"
      and "\<forall>r'\<in>set (reservas_worksheet w). numero r' = num \<longrightarrow> vendedor r' = Texto vend"
    using that m r0' by auto
  have 3: "r \<in> set (reservas_worksheet w')"
    using rin w' by (simp add: avanza_def)
  have 4: "filter (\<lambda>r. \<not> expirada now_l r) (reservas_worksheet w') =
       filter (\<lambda>r. \<not> expirada now_l r) (reservas_worksheet w)"
    using limpiar_conserva_vigentes [of now_l "avanza w"] w' by (simp add: avanza_def)
  have 5: "ventas_worksheet w' = ventas_worksheet w"
    using w' by (simp add: avanza_def ventas_limpiar)
  have 6: "\<exists>n. bitacora w' = bitacora w @ map Delete_reservas
            (take n (rev (rows_to_delete now_l (reservas_worksheet w))))"
    using bitacora_limpiar_prefijo [of now_l "avanza w"] w' by (simp add: avanza_def)
  from ok 1 2 3 4 5 6 show ?thesis by blast
qed

theorem reservar_numero_propia_witness:
  "reservar_numero 3 ''A'' 5 1 1
      (hojas [] [res 2 ''B'' 0 0, res 3 ''A'' 0 300000000] [False, True]) =
     ((False, Numero_reservado_por ''A''),
      hojas_con [] [res 2 ''B'' 0 0, res 3 ''A'' 0 300000000] []
        [Error_limpiando_reservas APIError] [])
   \<and> res 3 ''A'' 0 300000000 \<in> set [res 2 ''B'' 0 0, res 3 ''A'' 0 300000000]
   \<and> 1 \<le> expira_en (res 3 ''A'' 0 300000000)
   \<and> \<not> falla (limpiar_reservas_expiradas 1
          (avanza (hojas [] [res 2 ''B'' 0 0, res 3 ''A'' 0 300000000] [False, True])))"
proof -
  let ?w = "hojas [] [res 2 ''B'' 0 0, res 3 ''A'' 0 300000000] [False, True]"
  let ?r = "res 3 ''A'' 0 300000000"
  obtain ok m w' where 1: "reservar_numero 3 ''A'' 5 1 1 ?w = ((ok, m), w')"
    by (metis surj_pair)
  have 2: "?r \<in> set (reservas_worksheet ?w)" by simp
  have 3: "numero ?r = 3" "vendedor ?r = Texto ''A''" "1 \<le> expira_en ?r" "(3::int) \<noteq> 0"
    by simp_all
  have 4: "\<not> falla (limpiar_reservas_expiradas 1 (avanza ?w))"
    by (simp add: evaluar)
  have 5: "(falla ?w \<or> 3 \<notin> numero_v ` set (ventas_worksheet ?w))
      \<and> (\<forall>r'\<in>set (reservas_worksheet ?w). numero r' = 3 \<longrightarrow> vendedor r' = Texto ''A'')"
    by simp
  have 6: "numericise (lee_numero ?w) (Texto ''A'') = Texto ''A''"
    by (simp add: numero_py_def)
  from reservar_numero_propia [OF 1 2 3 4] 5
  have "\<not> ok \<and> m = Numero_reservado_por (str_celda (numericise (lee_numero ?w) (Texto ''A'')))"
    by blast
  with 1 6 have c: "fst (reservar_numero 3 ''A'' 5 1 1 ?w) = (False, Numero_reservado_por ''A'')"
    by simp
  have s: "snd (reservar_numero 3 ''A'' 5 1 1 ?w) =
      hojas_con [] [res 2 ''B'' 0 0, res 3 ''A'' 0 300000000] []
        [Error_limpiando_reservas APIError] []"
    by (simp add: evaluar)
  from c s 4 show ?thesis by (simp add: prod_eq_iff)
qed

subsection \<open>C6: a reservation that has expired\<close>

text \<open>
  C6 as stated: a reservation whose expiry is less than or equal to now is treated as
  absent by classification, and Reserve against a ticket whose only record is such a
  reservation succeeds, by comparing timestamps alone, whether or not a reap removed the
  row. The code does each of the following instead. Ticket 3 is held by A until
  instant 100 and has no sale.

  \<^item> At instant 100 itself the page paints ticket 3 as reserved and B's
    \<open>reservar_numero\<close> is rejected with "Numero reservado por A": the test of the reap
    is \<open>now > expira\<close>.
  \<^item> At instant 200, with the \<open>delete_rows\<close> of the reap raising, the page paints
    ticket 3 as reserved and B's \<open>reservar_numero\<close> is rejected: no timestamp is
    compared when the mapping is built, and the row is still in the sheet. The same
    happens when the read of the reap raises.
  \<^item> At instant 200, with \<open>append_row\<close> raising, B's \<open>reservar_numero\<close> returns \<open>False\<close>
    with "Error reservando".
  \<^item> At instant 200, B's \<open>reservar_numero\<close> for 1440000000000 minutes returns \<open>False\<close>
    with "Error reservando": \<open>timedelta\<close> raises \<open>OverflowError\<close>.
\<close>

theorem reserva_expirada_counterexample:
  "fst (mostrar_grilla_numeros 100 (hojas [] [res 3 ''A'' 0 100] [])) 3 =
     Reservado (res 3 ''A'' 0 100)
   \<and> reservar_numero 3 ''B'' 5 100 100 (hojas [] [res 3 ''A'' 0 100] []) =
     ((False, Numero_reservado_por ''A''), hojas [] [res 3 ''A'' 0 100] [])
   \<and> fst (mostrar_grilla_numeros 200 (hojas [] [res 3 ''A'' 0 100] [False, False, True])) 3 =
     Reservado (res 3 ''A'' 0 100)
   \<and> reservar_numero 3 ''B'' 5 200 200 (hojas [] [res 3 ''A'' 0 100] [False, False, True]) =
     ((False, Numero_reservado_por ''A''),
      hojas_con [] [res 3 ''A'' 0 100] [] [Error_limpiando_reservas APIError] [])
   \<and> reservar_numero 3 ''B'' 5 200 200 (hojas [] [res 3 ''A'' 0 100] [False, True]) =
     ((False, Numero_reservado_por ''A''),
      hojas_con [] [res 3 ''A'' 0 100] [] [Error_limpiando_reservas APIError] [])
   \<and> reservar_numero 3 ''B'' 5 200 200
       (hojas [] [res 3 ''A'' 0 100] [False, False, False, False, True]) =
     ((False, Error_reservando APIError), hojas_con [] [] [] [] [Delete_reservas 2])
   \<and> reservar_numero 3 ''B'' 1440000000000 200 200 (hojas [] [res 3 ''A'' 0 100] []) =
     ((False, Error_reservando OverflowError), hojas_con [] [] [] [] [Delete_reservas 2])"
  by (simp add: evaluar)

text \<open>
  C6, amended: the test of the code is \<open>now > expira_en\<close>, and an expired row is absent
  from classification only because the reap that precedes every read of \<open>reservas\<close>
  deletes it. Let every row of ticket \<open>t\<close> in \<open>reservas\<close> have its expiry strictly before
  the instant of the reap, and let the reap of the call show no warning (its read and
  its deletions returned). Then the page does not paint \<open>t\<close> as reserved, and paints it
  as available when \<open>ventas\<close> has no row of \<open>t\<close>; after it \<open>reservas\<close> has no row of \<open>t\<close>. And
  when \<open>ventas\<close> has no row of \<open>t\<close>, the expiry \<open>now + timedelta(minutes=minutos)\<close> can be
  computed and \<open>append_row\<close> returns, \<open>reservar_numero\<close> returns \<open>True\<close> with "Numero
  reservado exitosamente", having deleted the expired rows of \<open>reservas\<close> and then
  appended its own.
\<close>

theorem reserva_expirada:
  assumes "\<forall>r\<in>set (reservas_worksheet w). numero r = num \<longrightarrow> expira_en r < now_l"
    and "avisos (limpiar_reservas_expiradas now_l (avanza w)) = avisos w"
  shows "(\<forall>info. fst (mostrar_grilla_numeros now_l w) num \<noteq> Reservado info)
    \<and> (num \<notin> numero_v ` set (ventas_worksheet w) \<longrightarrow>
         fst (mostrar_grilla_numeros now_l w) num = Disponible)
    \<and> num \<notin> numero ` set (reservas_worksheet (snd (mostrar_grilla_numeros now_l w)))
    \<and> (num \<notin> numero_v ` set (ventas_worksheet w)
         \<and> nueva_reserva num vend minutos now = Inr fila
         \<and> \<not> falla (avanza (limpiar_reservas_expiradas now_l (avanza w))) \<longrightarrow>
         fst (reservar_numero num vend minutos now_l now w) =
           (True, Numero_reservado_exitosamente)
       \<and> reservas_worksheet (snd (reservar_numero num vend minutos now_l now w)) =
           filter (\<lambda>r. \<not> expirada now_l r) (reservas_worksheet w) @ [fila]
       \<and> bitacora (snd (reservar_numero num vend minutos now_l now w)) =
           bitacora w @ map Delete_reservas (rev (rows_to_delete now_l (reservas_worksheet w)))
             @ [Append_reservas fila]
       \<and> ventas_worksheet (snd (reservar_numero num vend minutos now_l now w)) =
           ventas_worksheet w)"
proof -
  let ?wl = "limpiar_reservas_expiradas now_l (avanza w)"
  have a: "avisos ?wl = avisos (avanza w)"
    using assms(2) by (simp add: avanza_def)
  have av: "reservas_worksheet (avanza w) = reservas_worksheet w"
    "bitacora (avanza w) = bitacora w" "ventas_worksheet (avanza w) = ventas_worksheet w"
    by (simp_all add: avanza_def)
  note l = limpiar_sin_aviso [OF a, unfolded av]
  have nr: "num \<notin> numero ` set (reservas_worksheet ?wl)"
    using assms(1) by (auto simp: l(1) expirada_def)
  then have rn: "fst (obtener_numeros_reservados now_l (avanza w)) num = None"
    by (simp add: reservados_None)
  have 1: "\<forall>info. fst (mostrar_grilla_numeros now_l w) num \<noteq> Reservado info"
    using rn by (simp add: grilla_casos estado_numero_def split: option.splits)
  have 2: "fst (mostrar_grilla_numeros now_l w) num = Disponible"
    if "num \<notin> numero_v ` set (ventas_worksheet w)"
  proof -
    from that have "fst (obtener_numeros_vendidos w) num = None"
      by (simp add: vendidos_None)
    with rn show ?thesis by (simp add: grilla_casos estado_numero_def)
  qed
  have "snd (mostrar_grilla_numeros now_l w) = snd (obtener_numeros_reservados now_l (avanza w))"
    using snd_obtener_numeros_vendidos [of w]
    by (auto simp: mostrar_grilla_numeros_def split: prod.splits)
  then have 3: "num \<notin> numero ` set (reservas_worksheet (snd (mostrar_grilla_numeros now_l w)))"
    using nr by (simp add: snd_obtener_numeros_reservados avanza_def)
  have 4: "fst (reservar_numero num vend minutos now_l now w) =
           (True, Numero_reservado_exitosamente)
       \<and> reservas_worksheet (snd (reservar_numero num vend minutos now_l now w)) =
           filter (\<lambda>r. \<not> expirada now_l r) (reservas_worksheet w) @ [fila]
       \<and> bitacora (snd (reservar_numero num vend minutos now_l now w)) =
           bitacora w @ map Delete_reservas (rev (rows_to_delete now_l (reservas_worksheet w)))
             @ [Append_reservas fila]
       \<and> ventas_worksheet (snd (reservar_numero num vend minutos now_l now w)) =
           ventas_worksheet w"
    if "num \<notin> numero_v ` set (ventas_worksheet w)"
      and "nueva_reserva num vend minutos now = Inr fila" and "\<not> falla (avanza ?wl)"
  proof -
    from that(1) have "fst (obtener_numeros_vendidos w) num = None"
      by (simp add: vendidos_None)
    moreover have "reservas_worksheet (avanza x) = reservas_worksheet x"
      "bitacora (avanza x) = bitacora x" "ventas_worksheet (avanza x) = ventas_worksheet x"
      for x
      by (simp_all add: avanza_def)
    ultimately show ?thesis
      using rn that(2,3)
      by (simp add: reservar_casos snd_obtener_numeros_reservados append_row_reservas_def
          l ventas_limpiar)
  qed
  from 1 2 3 4 show ?thesis by blast
qed

theorem reserva_expirada_witness:
  "expira_en (res 3 ''A'' 0 100) < 200
   \<and> nueva_reserva 3 ''B'' 5 201 = Inr (res 3 ''B'' 201 300000201)
   \<and> fst (mostrar_grilla_numeros 200 (hojas [] [res 3 ''A'' 0 100, res 4 ''C'' 0 300] [])) 3 =
       Disponible
   \<and> reservar_numero 3 ''B'' 5 200 201 (hojas [] [res 3 ''A'' 0 100, res 4 ''C'' 0 300] []) =
     ((True, Numero_reservado_exitosamente),
      hojas_con [] [res 4 ''C'' 0 300, res 3 ''B'' 201 300000201] [] []
        [Delete_reservas 2, Append_reservas (res 3 ''B'' 201 300000201)])"
proof -
  let ?w = "hojas [] [res 3 ''A'' 0 100, res 4 ''C'' 0 300] []"
  have 1: "\<forall>r\<in>set (reservas_worksheet ?w). numero r = 3 \<longrightarrow> expira_en r < 200"
    by simp
  have 2: "avisos (limpiar_reservas_expiradas 200 (avanza ?w)) = avisos ?w"
    by (simp add: evaluar)
  have 3: "3 \<notin> numero_v ` set (ventas_worksheet ?w)
      \<and> nueva_reserva 3 ''B'' 5 201 = Inr (res 3 ''B'' 201 300000201)
      \<and> \<not> falla (avanza (limpiar_reservas_expiradas 200 (avanza ?w)))"
    by (simp add: evaluar)
  from reserva_expirada [OF 1 2, where vend = "''B''" and minutos = 5 and now = 201
      and fila = "res 3 ''B'' 201 300000201"] 3
  have c: "fst (mostrar_grilla_numeros 200 ?w) 3 = Disponible"
    "fst (reservar_numero 3 ''B'' 5 200 201 ?w) = (True, Numero_reservado_exitosamente)"
    by blast+
  have s: "snd (reservar_numero 3 ''B'' 5 200 201 ?w) =
      hojas_con [] [res 4 ''C'' 0 300, res 3 ''B'' 201 300000201] [] []
        [Delete_reservas 2, Append_reservas (res 3 ''B'' 201 300000201)]"
    by (simp add: evaluar)
  from 3 c s show ?thesis by (simp add: prod_eq_iff)
qed

subsection \<open>C7: a read that fails\<close>

text \<open>
  C7: when a read of \<open>ventas\<close> or of \<open>reservas\<close> fails, no operation takes the failure for
  the numbers being available. The code does: \<open>obtener_numeros_vendidos\<close> and
  \<open>obtener_numeros_reservados\<close> end in a bare \<open>except: return {}\<close>, so a read that raises
  gives the empty mapping, which the page and \<open>reservar_numero\<close> read as "no number is
  sold" and "no number is reserved".

  \<^item> Ticket 3 is sold and the read of \<open>ventas\<close> raises: the page paints ticket 3 as
    available, and \<open>reservar_numero\<close> for it returns \<open>True\<close> and appends a reservation.
  \<^item> Ticket 3 is held by A and the read of \<open>reservas\<close> raises: the page paints ticket 3
    as available, and B's \<open>reservar_numero\<close> for it returns \<open>True\<close> and appends a second
    reservation.
\<close>

theorem lectura_fallida_da_disponible:
  "fst (mostrar_grilla_numeros 2
      (hojas [ven 3 (Texto ''X'') (Texto ''555'') (Texto ''A'') 0 1] [] [True])) 3 = Disponible
   \<and> fst (reservar_numero 3 ''B'' 5 2 2
      (hojas [ven 3 (Texto ''X'') (Texto ''555'') (Texto ''A'') 0 1] [] [True])) =
     (True, Numero_reservado_exitosamente)
   \<and> reservas_worksheet (snd (reservar_numero 3 ''B'' 5 2 2
      (hojas [ven 3 (Texto ''X'') (Texto ''555'') (Texto ''A'') 0 1] [] [True]))) =
     [res 3 ''B'' 2 300000002]
   \<and> fst (mostrar_grilla_numeros 2
      (hojas [] [res 3 ''A'' 0 300000000] [False, False, True])) 3 = Disponible
   \<and> fst (reservar_numero 3 ''B'' 5 2 2
      (hojas [] [res 3 ''A'' 0 300000000] [False, False, True])) =
     (True, Numero_reservado_exitosamente)
   \<and> reservas_worksheet (snd (reservar_numero 3 ''B'' 5 2 2
      (hojas [] [res 3 ''A'' 0 300000000] [False, False, True]))) =
     [res 3 ''A'' 0 300000000, res 3 ''B'' 2 300000002]"
  by (simp add: evaluar)

subsection \<open>C8: what classification writes\<close>

text \<open>
  C8 as stated: obtaining the sold/reserved classification leaves both tables exactly as
  they were. It does not: \<open>obtener_numeros_reservados\<close> calls
  \<open>limpiar_reservas_expiradas\<close> first, which deletes the expired rows of \<open>reservas\<close>.
\<close>

theorem obtener_numeros_reservados_escribe_counterexample:
  "reservas_worksheet
     (snd (obtener_numeros_reservados 300000001 (hojas [] [res 3 ''A'' 0 300000000] []))) = []
   \<and> reservas_worksheet (hojas [] [res 3 ''A'' 0 300000000] []) = [res 3 ''A'' 0 300000000]
   \<and> bitacora
     (snd (obtener_numeros_reservados 300000001 (hojas [] [res 3 ''A'' 0 300000000] []))) =
       [Delete_reservas 2]"
  by (simp add: evaluar)

text \<open>
  C8, amended: \<open>obtener_numeros_vendidos\<close> writes nothing and leaves both worksheets as
  they were. \<open>obtener_numeros_reservados\<close> leaves \<open>ventas\<close> as it was, and its only writes
  are deletions of rows of \<open>reservas\<close>, which keep every row that has not expired
  (\<open>now \<le> expira_en\<close>); when no call raises, exactly the expired rows are deleted.
\<close>

theorem clasificacion_escrituras:
  "ventas_worksheet (snd (obtener_numeros_vendidos w)) = ventas_worksheet w
   \<and> reservas_worksheet (snd (obtener_numeros_vendidos w)) = reservas_worksheet w
   \<and> bitacora (snd (obtener_numeros_vendidos w)) = bitacora w
   \<and> ventas_worksheet (snd (obtener_numeros_reservados now w)) = ventas_worksheet w
   \<and> filter (\<lambda>r. \<not> expirada now r)
         (reservas_worksheet (snd (obtener_numeros_reservados now w))) =
       filter (\<lambda>r. \<not> expirada now r) (reservas_worksheet w)
   \<and> (\<exists>ks. bitacora (snd (obtener_numeros_reservados now w)) =
             bitacora w @ map Delete_reservas ks)
   \<and> (fallos w = [] \<longrightarrow>
        reservas_worksheet (snd (obtener_numeros_reservados now w)) =
          filter (\<lambda>r. \<not> expirada now r) (reservas_worksheet w))"
proof -
  have v: "ventas_worksheet (snd (obtener_numeros_vendidos w)) = ventas_worksheet w
      \<and> reservas_worksheet (snd (obtener_numeros_vendidos w)) = reservas_worksheet w
      \<and> bitacora (snd (obtener_numeros_vendidos w)) = bitacora w"
    by (simp add: snd_obtener_numeros_vendidos avanza_def)
  have b: "\<exists>ks. bitacora (snd (obtener_numeros_reservados now w)) =
             bitacora w @ map Delete_reservas ks"
    using bitacora_limpiar [of now w] by (simp add: snd_obtener_numeros_reservados avanza_def)
  from v b show ?thesis
    by (simp add: snd_obtener_numeros_reservados avanza_def ventas_limpiar
        limpiar_conserva_vigentes reservas_limpiar_sin_fallos)
qed

theorem clasificacion_escrituras_witness:
  "fallos (hojas [] [res 3 ''A'' 0 300000000, res 4 ''B'' 1 300000001] []) = []
   \<and> reservas_worksheet (snd (obtener_numeros_reservados 300000001
        (hojas [] [res 3 ''A'' 0 300000000, res 4 ''B'' 1 300000001] []))) =
       [res 4 ''B'' 1 300000001]"
  using clasificacion_escrituras [of
      "hojas [] [res 3 ''A'' 0 300000000, res 4 ''B'' 1 300000001] []" 300000001]
  by (simp add: expirada_def)

subsection \<open>C9: cancelling a reservation one does not hold\<close>

text \<open>
  C9 as stated: Cancel(number, seller) with a mismatched seller or with no reservation
  returns a typed failure (NotOwner / NotReserved). It does not: \<open>cancelar_reserva\<close> has
  no \<open>return\<close>, so seller A cancelling ticket 3 held by B gets \<open>None\<close>, and no warning
  is shown either.
\<close>

theorem cancelar_reserva_devuelve_fallo_counterexample:
  "fst (ejecutar (Cancelar 3 ''A'') (hojas [] [res 3 ''B'' 0 300000000] [])) = Ninguno
   \<and> (\<nexists>m. fst (ejecutar (Cancelar 3 ''A'') (hojas [] [res 3 ''B'' 0 300000000] [])) = Tupla False m)
   \<and> avisos (snd (ejecutar (Cancelar 3 ''A'') (hojas [] [res 3 ''B'' 0 300000000] []))) = []"
  by (simp add: evaluar)

text \<open>
  C9, amended: \<open>cancelar_reserva\<close> always returns \<open>None\<close>, never touches \<open>ventas\<close> and
  never removes a row of another number or another seller; when no row of \<open>reservas\<close>
  has that number and that seller, both worksheets are left as they were, nothing is
  written, and no warning is shown if the read succeeded.
\<close>

theorem cancelar_reserva_ajena_o_ausente:
  "fst (ejecutar (Cancelar num vend) w) = Ninguno
   \<and> ventas_worksheet (snd (ejecutar (Cancelar num vend) w)) = ventas_worksheet w
   \<and> filter (\<lambda>r. \<not> (numero r = num \<and> vendedor r = Texto vend))
         (reservas_worksheet (snd (ejecutar (Cancelar num vend) w))) =
       filter (\<lambda>r. \<not> (numero r = num \<and> vendedor r = Texto vend)) (reservas_worksheet w)
   \<and> ((\<forall>r\<in>set (reservas_worksheet w). \<not> (numero r = num \<and> vendedor r = Texto vend)) \<longrightarrow>
          reservas_worksheet (snd (ejecutar (Cancelar num vend) w)) = reservas_worksheet w
        \<and> bitacora (snd (ejecutar (Cancelar num vend) w)) = bitacora w
        \<and> (\<not> falla w \<longrightarrow> avisos (snd (ejecutar (Cancelar num vend) w)) = avisos w))"
  using cancelar_respeta_ajenas [of num vend w] cancelar_sin_coincidencia [of w num vend]
  by (simp add: ventas_cancelar)

theorem cancelar_reserva_ajena_o_ausente_witness:
  "reservas_worksheet (snd (ejecutar (Cancelar 3 ''A'') (hojas [] [res 3 ''B'' 0 300000000] []))) =
     [res 3 ''B'' 0 300000000]
   \<and> bitacora (snd (ejecutar (Cancelar 3 ''A'') (hojas [] [res 3 ''B'' 0 300000000] []))) = []"
  using cancelar_reserva_ajena_o_ausente [of 3 "''A''"
      "hojas [] [res 3 ''B'' 0 300000000] []"]
  by simp

subsection \<open>C10: the deletion of the reservation fails after the sale was appended\<close>

text \<open>
  C10: suppose the checks of \<open>confirmar_venta\<close> passed (\<open>reservados\<close> has the number, held
  by the caller), the append to \<open>ventas\<close> returned, and then \<open>cancelar_reserva\<close> met an
  exception, in its read or in its \<open>delete_rows\<close>. Then \<open>confirmar_venta\<close> still returns
  \<open>(True, "Venta confirmada exitosamente")\<close>; the exception only leaves the warning
  "Error cancelando reserva"; the sale is the last row of \<open>ventas\<close>; the reservation row
  is still in \<open>reservas\<close>; and any later reader whose read of \<open>ventas\<close> succeeds paints the
  number as sold, and \<open>reservar_numero\<close> on an available ledger with these sales answers
  "Numero ya vendido".
\<close>

theorem confirmar_venta_traga_fallo:
  assumes "obtener_numeros_reservados now_l w = (reservados, w1)"
    and "reservados num = Some r" and "vendedor r = Texto vend"
    and "append_row_ventas (fila_venta num compr tel vend now) w1 = (Inr (), w2)"
    and "falla w2 \<or> falla (avanza w2)"
    and "confirmar_venta num compr tel vend now_l now w = (ret, w')"
  shows "ret = (True, Venta_confirmada_exitosamente)
       \<and> ventas_worksheet w' = ventas_worksheet w @ [fila_venta num compr tel vend now]
       \<and> reservas_worksheet w' = reservas_worksheet w1
       \<and> r \<in> set (reservas_worksheet w')
       \<and> avisos w' = avisos w1 @ [Error_cancelando_reserva APIError]
       \<and> (\<forall>x t. ventas_worksheet x = ventas_worksheet w' \<and> \<not> falla x \<longrightarrow>
             (\<exists>info. fst (mostrar_grilla_numeros t x) num = Vendido info))
       \<and> (\<forall>x b m t1 t2. ventas_worksheet x = ventas_worksheet w' \<and> fallos x = [] \<longrightarrow>
             fst (reservar_numero num b m t1 t2 x) = (False, Numero_ya_vendido))"
proof -
  let ?s = "fila_venta num compr tel vend now"
  let ?wl = "limpiar_reservas_expiradas now_l w"
  from assms(1,2) have r: "fst (obtener_numeros_reservados now_l w) num = Some r" by simp
  note s = reservados_Some [OF r]
  from assms(1) have w1: "w1 = avanza ?wl"
    using snd_obtener_numeros_reservados [of now_l w] by simp
  have rin: "r \<in> set (reservas_worksheet w1)"
    using reservados_Some_Texto [OF r assms(3)] w1 by (simp add: avanza_def)
  from s(4) assms(3) have p: "lee_numero w vend = None"
    by (auto simp: leer_reserva_Texto)
  have nf: "\<not> falla w1"
    using assms(4) by (auto simp: append_row_ventas_def split: if_splits)
  have w2: "ventas_worksheet w2 = ventas_worksheet w @ [?s]"
    "reservas_worksheet w2 = reservas_worksheet w1" "avisos w2 = avisos w1"
    "lee_numero w2 = lee_numero w"
    using assms(4) nf w1
    by (auto simp: append_row_ventas_def avanza_def ventas_limpiar lee_numero_limpiar)
  have c: "ret = (True, Venta_confirmada_exitosamente)" "w' = cancelar_reserva num vend w2"
    using assms(1,2,3,4,6) by (simp_all add: confirmar_venta_def)
  have "r \<in> set (reservas_worksheet w2)"
    using rin w2(2) by simp
  note k = cancelar_con_fallo [OF this s(3) assms(3) _ assms(5)]
  have v: "ventas_worksheet w' = ventas_worksheet w @ [?s]"
    using c(2) w2(1) by (simp add: ventas_cancelar)
  then have n: "num \<in> numero_v ` set (ventas_worksheet w')"
    by (simp add: fila_venta_def)
  have g: "\<forall>x t. ventas_worksheet x = ventas_worksheet w' \<and> \<not> falla x \<longrightarrow>
      (\<exists>info. fst (mostrar_grilla_numeros t x) num = Vendido info)"
    using n s(2) grilla_vendido by metis
  have h: "\<forall>x b m t1 t2. ventas_worksheet x = ventas_worksheet w' \<and> fallos x = [] \<longrightarrow>
      fst (reservar_numero num b m t1 t2 x) = (False, Numero_ya_vendido)"
    using n s(2) by (simp add: reservar_rechazo_vendido falla_sin_fallos)
  from c v k w2 p rin g h show ?thesis by simp
qed

theorem confirmar_venta_traga_fallo_witness:
  "confirmar_venta 3 ''X'' ''555'' ''A'' 1 1
      (hojas [] [res 3 ''A'' 0 300000000] [False, False, False, False, True]) =
     ((True, Venta_confirmada_exitosamente),
      hojas_con [ven 3 (Texto ''X'') (Texto ''555'') (Texto ''A'') 0 1]
        [res 3 ''A'' 0 300000000] [] [Error_cancelando_reserva APIError]
        [Append_ventas (ven 3 (Texto ''X'') (Texto ''555'') (Texto ''A'') 0 1)])
   \<and> fst (mostrar_grilla_numeros 2
       (hojas_con [ven 3 (Texto ''X'') (Texto ''555'') (Texto ''A'') 0 1]
        [res 3 ''A'' 0 300000000] [] [Error_cancelando_reserva APIError]
        [Append_ventas (ven 3 (Texto ''X'') (Texto ''555'') (Texto ''A'') 0 1)])) 3 =
       Vendido (ven 3 (Texto ''X'') (Numero ''555'') (Texto ''A'') 0 1)
   \<and> fst (reservar_numero 3 ''B'' 5 2 2
       (hojas_con [ven 3 (Texto ''X'') (Texto ''555'') (Texto ''A'') 0 1]
        [res 3 ''A'' 0 300000000] [] [Error_cancelando_reserva APIError]
        [Append_ventas (ven 3 (Texto ''X'') (Texto ''555'') (Texto ''A'') 0 1)])) =
       (False, Numero_ya_vendido)"
proof -
  let ?w = "hojas [] [res 3 ''A'' 0 300000000] [False, False, False, False, True]"
  let ?w1 = "hojas [] [res 3 ''A'' 0 300000000] [False, False, True]"
  let ?s = "ven 3 (Texto ''X'') (Texto ''555'') (Texto ''A'') 0 1"
  let ?w2 = "hojas_con [?s] [res 3 ''A'' 0 300000000] [False, True] [] [Append_ventas ?s]"
  let ?w' = "hojas_con [?s] [res 3 ''A'' 0 300000000] [] [Error_cancelando_reserva APIError]
    [Append_ventas ?s]"
  have 1: "obtener_numeros_reservados 1 ?w =
      (dict_por_numero numero [res 3 ''A'' 0 300000000], ?w1)"
    by (simp add: evaluar)
  have 2: "dict_por_numero numero [res 3 ''A'' 0 300000000] 3 = Some (res 3 ''A'' 0 300000000)"
    by (simp add: dict_por_numero_def)
  have 3: "vendedor (res 3 ''A'' 0 300000000) = Texto ''A''" by simp
  have 4: "append_row_ventas (fila_venta 3 ''X'' ''555'' ''A'' 1) ?w1 = (Inr (), ?w2)"
    by (simp add: evaluar)
  have 5: "falla ?w2 \<or> falla (avanza ?w2)"
    by (simp add: falla_def avanza_def)
  have 6: "confirmar_venta 3 ''X'' ''555'' ''A'' 1 1 ?w =
      ((True, Venta_confirmada_exitosamente), ?w')"
    by (simp add: evaluar)
  have 7: "fst (mostrar_grilla_numeros 2 ?w') 3 =
      Vendido (ven 3 (Texto ''X'') (Numero ''555'') (Texto ''A'') 0 1)"
    by (simp add: evaluar)
  have f: "ventas_worksheet ?w' = ventas_worksheet ?w' \<and> fallos ?w' = []" by simp
  from confirmar_venta_traga_fallo [OF 1 2 3 4 5 6]
  have "\<forall>x b m t1 t2. ventas_worksheet x = ventas_worksheet ?w' \<and> fallos x = [] \<longrightarrow>
      fst (reservar_numero 3 b m t1 t2 x) = (False, Numero_ya_vendido)"
    by blast
  with f have "fst (reservar_numero 3 ''B'' 5 2 2 ?w') = (False, Numero_ya_vendido)"
    by blast
  with 6 7 show ?thesis by simp
qed

end
